theory Spec2Isabelle
  imports
    Main
    "HOL-Library.List_Lexorder"
    "HOL-Library.Char_ord"
    "HOL-Library.Sublist"
    "HOL-Library.Multiset"
begin

section \<open>Values shared by the whole program\<close>

text \<open>
  A Go \<open>error\<close> is identified by its message; \<open>nil\<close> is \<open>None\<close> of
  \<open>error option\<close>, and a \<open>(value, error)\<close> return is the sum \<open>error + value\<close>
  with \<open>Inl\<close> the error.
\<close>

type_synonym error = string

text \<open>The levels of \<open>Llog\<close>: one constructor per logging method.\<close>

datatype level = FatalLn | WarningLn | VerboseLn | SuccessLn | InfoLn | DefaultLn | Default

text \<open>
  Every call of a collaborator that can change the outside world, in the order the
  program makes it, with the error it returned.
\<close>

datatype call =
    FsWrite string string
  | GoCommand string "string list"
  | BashCommand string string

section \<open>Data model\<close>

record RuntimeConfig =
  WD :: string
  ROOT :: string

record StaticConfig =
  MaxRecursion :: int
  RootFileName :: string
  ModuleFileName :: string

record RootConfig =
  Name :: string
  Version :: string
  Strategy :: string
  Vendor :: bool
  Scripts :: "string \<rightharpoonup> string"

record ModuleConfig =
  Name :: string
  RelativePath :: string
  Scripts :: "string \<rightharpoonup> string"

text \<open>
  \<open>SystemUtils\<close>: the injected interfaces \<open>FsI\<close> and \<open>ExecI\<close> over an outside
  world \<open>'w\<close>. \<open>Exists\<close> and \<open>Read\<close> inspect the world; \<open>Write\<close> and the two
  commands return the world they leave behind. The logger is the concrete \<open>Llog\<close>,
  modelled by the \<open>logged\<close> lines of the state below.
\<close>

record 'w SystemUtils =
  Fs_Exists :: "string \<Rightarrow> 'w \<Rightarrow> bool"
  Fs_Write :: "string \<Rightarrow> string \<Rightarrow> 'w \<Rightarrow> error option \<times> 'w"
  Fs_Read :: "string \<Rightarrow> 'w \<Rightarrow> error + string"
  Exec_GoCommand :: "string \<Rightarrow> string list \<Rightarrow> 'w \<Rightarrow> error option \<times> 'w"
  Exec_BashCommand :: "string \<Rightarrow> string \<Rightarrow> 'w \<Rightarrow> error option \<times> 'w"

record 'w Config =
  Runtime :: RuntimeConfig
  Static :: StaticConfig
  su :: "'w SystemUtils"

text \<open>
  What the program takes from the Go standard library and from its two third-party
  packages, as parameters: \<open>path/filepath\<close>, \<open>os.Getwd\<close>, a \<open>ReadString\<close> of one
  line from a fresh \<open>bufio\<close> reader on standard input, \<open>fmt.Sprintf\<close> of a format
  with no operands, and the TOML codec at the two types it is used at. \<open>filepath_Walk root w\<close> is the sequence of entries
  \<open>(path, is a directory, error)\<close> that \<open>filepath.Walk\<close> hands to its callback, in
  the order of the walk.
\<close>

record 'w Platform =
  filepath_Join :: "string list \<Rightarrow> string"
  filepath_Dir :: "string \<Rightarrow> string"
  filepath_Base :: "string \<Rightarrow> string"
  filepath_Rel :: "string \<Rightarrow> string \<Rightarrow> error + string"
  filepath_Walk :: "string \<Rightarrow> 'w \<Rightarrow> (string \<times> bool \<times> error option) list"
  os_Getwd :: "'w \<Rightarrow> error + string"
  stdin_ReadString :: "'w \<Rightarrow> (error + string) \<times> 'w"
  fmt_Sprintf :: "string \<Rightarrow> string"
  toml_Marshal :: "RootConfig \<Rightarrow> error + string"
  toml_Unmarshal :: "string \<Rightarrow> error + (string \<rightharpoonup> string)"

text \<open>The state a command runs in: the outside world, the lines logged, the calls made.\<close>

record 'w state =
  world :: 'w
  logged :: "(level \<times> string) list"
  calls :: "(call \<times> error option) list"

definition logLn :: "level \<Rightarrow> string \<Rightarrow> 'w state \<Rightarrow> 'w state" where
  "logLn l msg st = st\<lparr>logged := logged st @ [(l, msg)]\<rparr>"

section \<open>Configuration: resolving the root\<close>

text \<open>
  The loop of \<open>getRootPath\<close>, \<open>for i := 0; i <= MaxRecursion; i++\<close>, from the
  iteration \<open>i\<close> on. The counter is a mathematical integer: under the limit of 7
  that \<open>NewConfig\<close> sets it stays far from the bounds of Go's \<open>int\<close>.
\<close>

function getRootPath_loop ::
  "'w Platform \<Rightarrow> 'w Config \<Rightarrow> 'w \<Rightarrow> int \<Rightarrow> string \<Rightarrow> error + string" where
  "getRootPath_loop pf cfg w i currentDir =
     (if i \<le> MaxRecursion (Static cfg) then
        (let filePath = filepath_Join pf [currentDir, RootFileName (Static cfg)] in
         if Fs_Exists (su cfg) filePath w then Inr currentDir
         else
           (let parentDir = filepath_Dir pf currentDir in
            if parentDir = currentDir then Inr (WD (Runtime cfg))
            else getRootPath_loop pf cfg w (i + 1) parentDir))
      else Inl ''root not found'')"
  by pat_completeness auto
termination
  by (relation "measure (\<lambda>(pf, cfg, w, i, d). nat (MaxRecursion (Static cfg) + 1 - i))") auto

declare getRootPath_loop.simps [simp del]

definition getRootPath :: "'w Platform \<Rightarrow> 'w Config \<Rightarrow> 'w \<Rightarrow> error + string" where
  "getRootPath pf cfg w =
     (let currentDir = WD (Runtime cfg) in
      if currentDir = '''' then Inl ''no working directory''
      else getRootPath_loop pf cfg w 0 currentDir)"

definition NewConfig :: "'w Platform \<Rightarrow> 'w SystemUtils \<Rightarrow> 'w \<Rightarrow> error + 'w Config" where
  "NewConfig pf s w =
     (let cfg = \<lparr>Runtime = \<lparr>WD = '''', ROOT = ''''\<rparr>,
                 Static = \<lparr>MaxRecursion = 7, RootFileName = ''work.toml'',
                           ModuleFileName = ''module.toml''\<rparr>,
                 su = s\<rparr> in
      case os_Getwd pf w of
        Inl err \<Rightarrow> Inl err
      | Inr wd \<Rightarrow>
          (let cfg = cfg\<lparr>Runtime := (Runtime cfg)\<lparr>WD := wd\<rparr>\<rparr> in
           case getRootPath pf cfg w of
             Inl err \<Rightarrow> Inl err
           | Inr root \<Rightarrow> Inr (cfg\<lparr>Runtime := (Runtime cfg)\<lparr>ROOT := root\<rparr>\<rparr>)))"

text \<open>
  Vocabulary for the statements about the search: the directory \<open>k\<close> parent hops above
  the working directory, and whether a directory holds the root marker file.
\<close>

definition ancestor :: "'w Platform \<Rightarrow> 'w Config \<Rightarrow> nat \<Rightarrow> string" where
  "ancestor pf cfg k = (filepath_Dir pf ^^ k) (WD (Runtime cfg))"

definition marked :: "'w Platform \<Rightarrow> 'w Config \<Rightarrow> 'w \<Rightarrow> string \<Rightarrow> bool" where
  "marked pf cfg w d \<longleftrightarrow>
     Fs_Exists (su cfg) (filepath_Join pf [d, RootFileName (Static cfg)]) w"

section \<open>Configuration: documents and module discovery\<close>

definition RootConfigExists :: "'w Platform \<Rightarrow> 'w Config \<Rightarrow> 'w \<Rightarrow> bool" where
  "RootConfigExists pf c w =
     (let filePath = filepath_Join pf [ROOT (Runtime c), RootFileName (Static c)] in
      Fs_Exists (su c) filePath w)"

definition GoWorkspaceExists :: "'w Platform \<Rightarrow> 'w Config \<Rightarrow> 'w \<Rightarrow> bool" where
  "GoWorkspaceExists pf c w =
     (let filePath = filepath_Join pf [ROOT (Runtime c), ''go.work''] in
      Fs_Exists (su c) filePath w)"

text \<open>The three collaborator calls that change the world, each recorded in \<open>calls\<close>.\<close>

definition call_Fs_Write ::
  "'w SystemUtils \<Rightarrow> string \<Rightarrow> string \<Rightarrow> 'w state \<Rightarrow> error option \<times> 'w state" where
  "call_Fs_Write s path content st =
     (case Fs_Write s path content (world st) of
        (err, w') \<Rightarrow> (err, st\<lparr>world := w', calls := calls st @ [(FsWrite path content, err)]\<rparr>))"

definition call_GoCommand ::
  "'w SystemUtils \<Rightarrow> string \<Rightarrow> string list \<Rightarrow> 'w state \<Rightarrow> error option \<times> 'w state" where
  "call_GoCommand s dir args st =
     (case Exec_GoCommand s dir args (world st) of
        (err, w') \<Rightarrow> (err, st\<lparr>world := w', calls := calls st @ [(GoCommand dir args, err)]\<rparr>))"

definition call_BashCommand ::
  "'w SystemUtils \<Rightarrow> string \<Rightarrow> string \<Rightarrow> 'w state \<Rightarrow> error option \<times> 'w state" where
  "call_BashCommand s path script st =
     (case Exec_BashCommand s path script (world st) of
        (err, w') \<Rightarrow> (err, st\<lparr>world := w', calls := calls st @ [(BashCommand path script, err)]\<rparr>))"

definition WriteRootConfig ::
  "'w Platform \<Rightarrow> 'w Config \<Rightarrow> RootConfig \<Rightarrow> 'w state \<Rightarrow> error option \<times> 'w state" where
  "WriteRootConfig pf c rootConfig st =
     (case toml_Marshal pf rootConfig of
        Inl err \<Rightarrow> (Some err, st)
      | Inr configStr \<Rightarrow>
          (let filePath = filepath_Join pf [ROOT (Runtime c), RootFileName (Static c)] in
           call_Fs_Write (su c) filePath configStr st))"

text \<open>
  \<open>LoadModuleConfig\<close>: only \<open>scripts\<close> is decoded from the document (the two other
  fields are tagged \<open>toml:"-"\<close>), then name and relative path are set from the path.
\<close>

definition LoadModuleConfig ::
  "'w Platform \<Rightarrow> 'w Config \<Rightarrow> string \<Rightarrow> 'w \<Rightarrow> error + ModuleConfig" where
  "LoadModuleConfig pf c relativePath w =
     (let path = filepath_Join pf [ROOT (Runtime c), relativePath, ModuleFileName (Static c)] in
      case Fs_Read (su c) path w of
        Inl err \<Rightarrow> Inl err
      | Inr file \<Rightarrow>
          (case toml_Unmarshal pf file of
             Inl err \<Rightarrow> Inl err
           | Inr scripts \<Rightarrow>
               Inr \<lparr>Name = filepath_Base pf relativePath, RelativePath = relativePath,
                    Scripts = scripts\<rparr>))"

text \<open>
  The closure that \<open>GetModules\<close> hands to \<open>filepath.Walk\<close>, called on one entry
  of the walk: it takes the modules collected so far and returns them, extended or
  not, with the error of the callback.
\<close>

definition GetModules_callback ::
  "'w Platform \<Rightarrow> 'w Config \<Rightarrow> 'w \<Rightarrow> string \<times> bool \<times> error option \<Rightarrow>
   ModuleConfig list \<Rightarrow> ModuleConfig list \<times> error option" where
  "GetModules_callback pf c w entry modules =
     (case entry of (path, isDir, err) \<Rightarrow>
        (case err of
           Some e \<Rightarrow> (modules, Some e)
         | None \<Rightarrow>
             if isDir then
               (let exists = Fs_Exists (su c) (filepath_Join pf [path, ModuleFileName (Static c)]) w
                in if exists then
                     (case filepath_Rel pf (ROOT (Runtime c)) path of
                        Inl e \<Rightarrow> (modules, Some e)
                      | Inr relativePath \<Rightarrow>
                          (case LoadModuleConfig pf c relativePath w of
                             Inl e \<Rightarrow> (modules, Some e)
                           | Inr moduleConfig \<Rightarrow> (modules @ [moduleConfig], None)))
                   else (modules, None))
             else (modules, None)))"

text \<open>
  \<open>filepath.Walk\<close> itself: the callback is called on the entries in order, and the
  first error it returns ends the walk and is the error of the walk. (The callback
  above never returns \<open>SkipDir\<close>.)
\<close>

fun Walk_run ::
  "('e \<Rightarrow> 's \<Rightarrow> 's \<times> error option) \<Rightarrow> 'e list \<Rightarrow> 's \<Rightarrow> 's \<times> error option" where
  "Walk_run fn [] s = (s, None)"
| "Walk_run fn (entry # rest) s =
     (case fn entry s of
        (s', Some err) \<Rightarrow> (s', Some err)
      | (s', None) \<Rightarrow> Walk_run fn rest s')"

text \<open>
  \<open>sort.Slice(modules, func(i, j) { modules[i].Name < modules[j].Name })\<close>: Go compares
  strings byte by byte, the order of \<open>string\<close> here. \<open>sort.Slice\<close> promises a sorted
  rearrangement and no more (it is not stable); the insertion sort standing for it is
  one such rearrangement.
\<close>

definition sort_Slice_Name :: "ModuleConfig list \<Rightarrow> ModuleConfig list" where
  "sort_Slice_Name modules = sort_key Name modules"

definition GetModules ::
  "'w Platform \<Rightarrow> 'w Config \<Rightarrow> 'w state \<Rightarrow> (ModuleConfig list \<times> error option) \<times> 'w state" where
  "GetModules pf c st =
     (let currentPath = ROOT (Runtime c) in
      case Walk_run (GetModules_callback pf c (world st))
             (filepath_Walk pf currentPath (world st)) [] of
        (modules, Some err) \<Rightarrow> ((modules, Some err), logLn WarningLn err st)
      | (modules, None) \<Rightarrow> ((sort_Slice_Name modules, None), st))"

section \<open>String helpers of the standard library\<close>

fun strings_Split :: "string \<Rightarrow> char \<Rightarrow> string list" where
  "strings_Split [] sep = [[]]"
| "strings_Split (ch # s) sep =
     (if ch = sep then [] # strings_Split s sep
      else (case strings_Split s sep of
              [] \<Rightarrow> [[ch]]
            | t # ts \<Rightarrow> (ch # t) # ts))"

fun strings_Join :: "string list \<Rightarrow> string \<Rightarrow> string" where
  "strings_Join [] sep = ''''"
| "strings_Join [a] sep = a"
| "strings_Join (a # b # elems) sep = a @ sep @ strings_Join (b # elems) sep"

definition strconv_FormatBool :: "bool \<Rightarrow> string" where
  "strconv_FormatBool b = (if b then ''true'' else ''false'')"

text \<open>
  \<open>strings.TrimSpace\<close> on ASCII input: tab, line feed, vertical tab, form feed,
  carriage return and space are trimmed at both ends.
\<close>

definition isSpace :: "char \<Rightarrow> bool" where
  "isSpace ch \<longleftrightarrow> ch \<in> {CHR 0x09, CHR 0x0A, CHR 0x0B, CHR 0x0C, CHR 0x0D, CHR '' ''}"

definition strings_TrimSpace :: "string \<Rightarrow> string" where
  "strings_TrimSpace s = rev (dropWhile isSpace (rev (dropWhile isSpace s)))"

text \<open>\<open>m[k]\<close> on a Go map of strings: the empty string when the key is absent.\<close>

definition index_map :: "(string \<rightharpoonup> string) \<Rightarrow> string \<Rightarrow> string" where
  "index_map m k = (case m k of None \<Rightarrow> '''' | Some v \<Rightarrow> v)"

fun contains :: "string list \<Rightarrow> string \<Rightarrow> bool" where
  "contains [] e = False"
| "contains (a # s) e = (if a = e then True else contains s e)"

section \<open>Commands\<close>

record 'w Commands =
  SystemUtils :: "'w SystemUtils"
  Config :: "'w Config"

text \<open>What the commands read of \<open>cli.Context\<close>: the positional arguments and the flags of \<open>run\<close>.\<close>

record Context =
  Args :: "string list"
  flag_target :: string
  flag_dry_run :: bool
  flag_allow_missing :: bool

definition Args_Get :: "Context \<Rightarrow> nat \<Rightarrow> string" where
  "Args_Get c n = (if n < length (Args c) then Args c ! n else '''')"

definition read_stdin :: "'w Platform \<Rightarrow> 'w state \<Rightarrow> (error + string) \<times> 'w state" where
  "read_stdin pf st =
     (case stdin_ReadString pf (world st) of (r, w') \<Rightarrow> (r, st\<lparr>world := w'\<rparr>))"

text \<open>
  \<open>Commands.Init\<close>. The colour functions only wrap a message in escape codes and are
  left out of the logged text.
\<close>

definition Init ::
  "'w Platform \<Rightarrow> 'w Commands \<Rightarrow> Context \<Rightarrow> 'w state \<Rightarrow> error option \<times> 'w state" where
  "Init pf cmd c st =
     (if RootConfigExists pf (Config cmd) (world st) then
        (Some (''monorepo already exists at '' @ ROOT (Runtime (Config cmd))), st)
      else
        (let rootConfig =
               \<lparr>RootConfig.Name = Args_Get c 0, Version = ''0.1.0'', Strategy = ''workspace'',
                Vendor = True, Scripts = Map.empty\<rparr>;
             asked =
               (if RootConfig.Name rootConfig = '''' then
                  (let defaultName = filepath_Base pf (ROOT (Runtime (Config cmd)));
                       st = logLn Default
                              (''Enter the monorepo name: '' @
                               fmt_Sprintf pf (''default: ('' @ defaultName @ '')'') @ '' '') st
                   in case read_stdin pf st of
                        (Inl err, st) \<Rightarrow> (Inl (''failed to read input: '' @ err), st)
                      | (Inr response, st) \<Rightarrow>
                          (let response = strings_TrimSpace response;
                               response = (if response = '''' then defaultName else response)
                           in (Inr (rootConfig\<lparr>RootConfig.Name := response\<rparr>), st)))
                else (Inr rootConfig, st))
         in case asked of
              (Inl err, st) \<Rightarrow> (Some err, st)
            | (Inr rootConfig, st) \<Rightarrow>
                (let st = logLn InfoLn
                            ''Using go workspace strategy by default (no other option for now)'' st;
                     st = logLn Default
                            (''Do you want to vendor dependencies? (y/n) '' @ ''default: (y)'' @ '' '') st
                 in case read_stdin pf st of
                      (Inl err, st) \<Rightarrow> (Some (''failed to read input: '' @ err), st)
                    | (Inr response, st) \<Rightarrow>
                        (let rootConfig = rootConfig\<lparr>Vendor := (strings_TrimSpace response = ''y'')\<rparr>;
                             workspace =
                               (if Strategy rootConfig = ''workspace'' then
                                  (if \<not> GoWorkspaceExists pf (Config cmd) (world st) then
                                     call_GoCommand (SystemUtils cmd) (ROOT (Runtime (Config cmd)))
                                       [''work'', ''init'']
                                       (logLn VerboseLn
                                          (''go workspace does not exist yet, running 'go work init'' @ [CHR 0x27]) st)
                                   else
                                     (None, logLn VerboseLn
                                              ''go workspace already exists, no need to create one'' st))
                                else if Strategy rootConfig = ''rewrite'' then
                                  (Some ''rewrite strategy unsupported yet'', st)
                                else
                                  (Some (''invalid strategy '' @ [CHR 0x27] @ Strategy rootConfig @ [CHR 0x27]), st))
                         in case workspace of
                              (Some err, st) \<Rightarrow> (Some err, st)
                            | (None, st) \<Rightarrow>
                                (case WriteRootConfig pf (Config cmd) rootConfig st of
                                   (Some err, st) \<Rightarrow> (Some err, st)
                                 | (None, st) \<Rightarrow>
                                     (let st = logLn VerboseLn
                                                 ''created monorepo configuration 'work.toml' at root'' st;
                                          st = logLn SuccessLn
                                                 (''monorepo initialized at '' @
                                                  ROOT (Runtime (Config cmd))) st
                                      in (None, st)))))))"

text \<open>
  \<open>Commands.Run\<close>, block by block. First the loop over the targets that rejects
  \<open>root\<close> next to another target.
\<close>

fun Run_checkRoot :: "string list \<Rightarrow> string list \<Rightarrow> error option" where
  "Run_checkRoot targets [] = None"
| "Run_checkRoot targets (target # rest) =
     (if target = ''root'' \<and> length targets > 1 then
        Some ''cannot run script in root and in modules at the same time, you're being too fancy''
      else Run_checkRoot targets rest)"

text \<open>The loop that selects the targeted modules among the discovered ones.\<close>

fun Run_selectModules ::
  "string list \<Rightarrow> string \<Rightarrow> ModuleConfig list \<Rightarrow> ModuleConfig list \<Rightarrow> ModuleConfig list" where
  "Run_selectModules targets target0 [] modules = modules"
| "Run_selectModules targets target0 (m # allModules) modules =
     (if target0 = ''all'' \<or> contains targets (Name m) then
        Run_selectModules targets target0 allModules (modules @ [m])
      else Run_selectModules targets target0 allModules modules)"

text \<open>The loop that collects the names of the modules without the script.\<close>

fun Run_modulesWithoutScript ::
  "string \<Rightarrow> ModuleConfig list \<Rightarrow> string list \<Rightarrow> string list" where
  "Run_modulesWithoutScript scriptName [] modulesWithoutScript = modulesWithoutScript"
| "Run_modulesWithoutScript scriptName (m # modules) modulesWithoutScript =
     (if Scripts m scriptName = None \<or> index_map (Scripts m) scriptName = '''' then
        Run_modulesWithoutScript scriptName modules (modulesWithoutScript @ [Name m])
      else Run_modulesWithoutScript scriptName modules modulesWithoutScript)"

text \<open>The loop that executes the script, module after module.\<close>

fun Run_execute ::
  "'w Platform \<Rightarrow> 'w Commands \<Rightarrow> string \<Rightarrow> bool \<Rightarrow> ModuleConfig list \<Rightarrow> 'w state \<Rightarrow>
   error option \<times> 'w state" where
  "Run_execute pf cmd scriptName dryRun [] st = (None, st)"
| "Run_execute pf cmd scriptName dryRun (m # modules) st =
     (let path = filepath_Join pf [ROOT (Runtime (Config cmd)), RelativePath m];
          script = index_map (Scripts m) scriptName
      in if script = '''' then
           Run_execute pf cmd scriptName dryRun modules
             (logLn InfoLn ''script is empty, skipping'' st)
         else
           (let st = logLn InfoLn (''running script '' @ scriptName @ '' in module '' @ Name m) st
            in if dryRun then Run_execute pf cmd scriptName dryRun modules st
               else
                 (case call_BashCommand (SystemUtils cmd) path script st of
                    (Some err, st) \<Rightarrow> (Some err, st)
                  | (None, st) \<Rightarrow> Run_execute pf cmd scriptName dryRun modules st)))"

text \<open>
  From \<open>// check all modules have the script\<close> to the end of the execution loop: the
  classification of the selected modules, the policy on missing scripts, the
  execution.
\<close>

definition Run_dispatch ::
  "'w Platform \<Rightarrow> 'w Commands \<Rightarrow> string \<Rightarrow> bool \<Rightarrow> bool \<Rightarrow> ModuleConfig list \<Rightarrow> 'w state \<Rightarrow>
   error option \<times> 'w state" where
  "Run_dispatch pf cmd scriptName allowMissing dryRun modules st =
     (let st = logLn VerboseLn ''checking if all modules have the script'' st;
          modulesWithoutScript = Run_modulesWithoutScript scriptName modules []
      in if length modulesWithoutScript = length modules then
           (Some ''not running script, because it is missing in all modules'', st)
         else if length modulesWithoutScript > 0 \<and> \<not> allowMissing then
           (Some (''not running script, because it is missing in following modules '' @ [CHR 0x27] @
                  scriptName @ ''' :'' @ strings_Join modulesWithoutScript '', ''), st)
         else
           (let st =
                  (if length modulesWithoutScript > 0 \<and> allowMissing then
                     logLn VerboseLn
                       (''script is missing in following modules (but flag allowMissing was passed) '' @ [CHR 0x27] @
                        scriptName @ ''' :'' @ strings_Join modulesWithoutScript '', '') st
                   else logLn VerboseLn ''all modules have the script'' st)
            in Run_execute pf cmd scriptName dryRun modules st))"

text \<open>
  \<open>targets[0]\<close> is an index into a slice: on an empty slice the program panics, which
  the model makes an error of its own (\<open>strings.Split\<close> never returns an empty slice).
\<close>

definition Run ::
  "'w Platform \<Rightarrow> 'w Commands \<Rightarrow> Context \<Rightarrow> 'w state \<Rightarrow> error option \<times> 'w state" where
  "Run pf cmd c st =
     (if \<not> RootConfigExists pf (Config cmd) (world st) then
        (Some (''monorepo not found at '' @ ROOT (Runtime (Config cmd))), st)
      else
        (let scriptName = Args_Get c 0 in
         if scriptName = '''' then
           (Some ''no script name provided, usage: gorepo run [script_name]'', st)
         else
           (let st = logLn VerboseLn (''running script '' @ [CHR 0x27] @ scriptName @ [CHR 0x27]) st;
                allowMissing = flag_allow_missing c;
                st = logLn VerboseLn
                       (''value for flag allowMissing: '' @ strconv_FormatBool allowMissing) st;
                dryRun = flag_dry_run c;
                st = logLn VerboseLn
                       (''value for flag dryRun:       '' @ strconv_FormatBool dryRun) st;
                targets = strings_Split (flag_target c) (CHR '','');
                st = logLn VerboseLn
                       (''value for flag target:       '' @ strings_Join targets '','') st
            in case Run_checkRoot targets targets of
                 Some err \<Rightarrow> (Some err, st)
               | None \<Rightarrow>
                   (case targets of
                      [] \<Rightarrow> (Some ''panic: runtime error: index out of range [0] with length 0'', st)
                    | target0 # _ \<Rightarrow>
                        if target0 = ''root'' then
                          (None, logLn VerboseLn ''running script in root not supported yet'' st)
                        else
                          (case GetModules pf (Config cmd) st of
                             ((_, Some err), st) \<Rightarrow> (Some err, st)
                           | ((allModules, None), st) \<Rightarrow>
                               (let modules = Run_selectModules targets target0 allModules []
                                in Run_dispatch pf cmd scriptName allowMissing dryRun modules st))))))"

section \<open>The adapters of the program\<close>

text \<open>
  \<open>Fs\<close> and \<open>Exec\<close>, the implementations of \<open>FsI\<close> and \<open>ExecI\<close> that \<open>main\<close>
  injects, over the operating-system facilities they call. \<open>cmd_CombinedOutput\<close> and
  \<open>cmd_Run\<close> take the program, its arguments and the directory \<open>cmd.Dir\<close>.
\<close>

record 'w OS =
  os_Stat :: "string \<Rightarrow> 'w \<Rightarrow> error option"
  os_IsNotExist :: "error option \<Rightarrow> bool"
  os_WriteFile :: "string \<Rightarrow> string \<Rightarrow> 'w \<Rightarrow> error option \<times> 'w"
  os_ReadFile :: "string \<Rightarrow> 'w \<Rightarrow> error + string"
  cmd_CombinedOutput :: "string \<Rightarrow> string list \<Rightarrow> string \<Rightarrow> 'w \<Rightarrow> (string \<times> error option) \<times> 'w"
  cmd_Run :: "string \<Rightarrow> string list \<Rightarrow> string \<Rightarrow> 'w \<Rightarrow> error option \<times> 'w"

definition Exists_impl :: "'w OS \<Rightarrow> string \<Rightarrow> 'w \<Rightarrow> bool" where
  "Exists_impl os path w = (os_Stat os path w = None)"

definition Write_impl :: "'w OS \<Rightarrow> string \<Rightarrow> string \<Rightarrow> 'w \<Rightarrow> error option \<times> 'w" where
  "Write_impl os path content w = os_WriteFile os path content w"

definition Read_impl :: "'w OS \<Rightarrow> string \<Rightarrow> 'w \<Rightarrow> error + string" where
  "Read_impl os path w = os_ReadFile os path w"

definition GoCommand_impl :: "'w OS \<Rightarrow> string \<Rightarrow> string list \<Rightarrow> 'w \<Rightarrow> error option \<times> 'w" where
  "GoCommand_impl os absolutePath args w =
     (case cmd_CombinedOutput os ''go'' args absolutePath w of
        ((output, Some err), w') \<Rightarrow>
          (Some (''failed to run command: '' @ err @ [CHR 0x0A] @ ''Output: '' @ output), w')
      | ((output, None), w') \<Rightarrow> (None, w'))"

definition BashCommand_impl :: "'w OS \<Rightarrow> string \<Rightarrow> string \<Rightarrow> 'w \<Rightarrow> error option \<times> 'w" where
  "BashCommand_impl os absolutePath script w =
     (if os_IsNotExist os (os_Stat os absolutePath w) then
        (Some (''directory does not exist: '' @ absolutePath), w)
      else
        (case cmd_Run os ''/bin/sh'' [''-c'', script] absolutePath w of
           (Some err, w') \<Rightarrow> (Some (''failed to run command in '' @ absolutePath @ '': '' @ err), w')
         | (None, w') \<Rightarrow> (None, w')))"

definition NewSystemUtils :: "'w OS \<Rightarrow> 'w SystemUtils" where
  "NewSystemUtils os =
     \<lparr>Fs_Exists = Exists_impl os, Fs_Write = Write_impl os, Fs_Read = Read_impl os,
      Exec_GoCommand = GoCommand_impl os, Exec_BashCommand = BashCommand_impl os\<rparr>"

section \<open>An in-memory world for the examples\<close>

text \<open>
  A small world to run the program in: the paths that exist, in the order a walk
  visits them, each with its is-a-directory flag; the contents of the files; the
  working directory; the lines waiting on standard input.
\<close>

record MemWorld =
  entries :: "(string \<times> bool) list"
  contents :: "(string \<times> string) list"
  cwd :: string
  input :: "string list"

definition mem_Stat :: "string \<Rightarrow> MemWorld \<Rightarrow> error option" where
  "mem_Stat p w =
     (case map_of (entries w) p of
        None \<Rightarrow> Some (''stat '' @ p @ '': no such file or directory'')
      | Some _ \<Rightarrow> None)"

definition mem_IsNotExist :: "error option \<Rightarrow> bool" where
  "mem_IsNotExist e = (e \<noteq> None)"

definition mem_WriteFile :: "string \<Rightarrow> string \<Rightarrow> MemWorld \<Rightarrow> error option \<times> MemWorld" where
  "mem_WriteFile p content w =
     (None, w\<lparr>entries := (case map_of (entries w) p of
                             None \<Rightarrow> entries w @ [(p, False)]
                           | Some _ \<Rightarrow> entries w),
              contents := (p, content) # contents w\<rparr>)"

definition mem_ReadFile :: "string \<Rightarrow> MemWorld \<Rightarrow> error + string" where
  "mem_ReadFile p w =
     (case map_of (contents w) p of
        None \<Rightarrow> Inl (''open '' @ p @ '': no such file or directory'')
      | Some s \<Rightarrow> Inr s)"

text \<open>The shell of this world: the script \<open>exit 1\<close> fails, every other script succeeds.\<close>

definition mem_cmd_Run ::
  "string \<Rightarrow> string list \<Rightarrow> string \<Rightarrow> MemWorld \<Rightarrow> error option \<times> MemWorld" where
  "mem_cmd_Run name args dir w =
     (if args = [''-c'', ''exit 1''] then (Some ''exit status 1'', w) else (None, w))"

text \<open>The toolchain of this world: \<open>go work init\<close> creates \<open>go.work\<close> in the directory.\<close>

definition mem_cmd_CombinedOutput ::
  "string \<Rightarrow> string list \<Rightarrow> string \<Rightarrow> MemWorld \<Rightarrow> (string \<times> error option) \<times> MemWorld" where
  "mem_cmd_CombinedOutput name args dir w =
     (if args = [''work'', ''init''] then
        (('''', None), snd (mem_WriteFile (dir @ ''/go.work'') ''go 1.23'' w))
      else (('''', None), w))"

definition mem_OS :: "MemWorld OS" where
  "mem_OS =
     \<lparr>os_Stat = mem_Stat, os_IsNotExist = mem_IsNotExist, os_WriteFile = mem_WriteFile,
      os_ReadFile = mem_ReadFile, cmd_CombinedOutput = mem_cmd_CombinedOutput,
      cmd_Run = mem_cmd_Run\<rparr>"

text \<open>
  The path functions on clean slash-separated paths (no \<open>.\<close> or \<open>..\<close> element, no
  trailing slash), where they agree with \<open>path/filepath\<close> on Unix.
\<close>

fun squeeze :: "string \<Rightarrow> string" where
  "squeeze (a # b # s) =
     (if a = CHR ''/'' \<and> b = CHR ''/'' then squeeze (b # s) else a # squeeze (b # s))"
| "squeeze s = s"

definition unix_Join :: "string list \<Rightarrow> string" where
  "unix_Join elems = squeeze (strings_Join (filter (\<lambda>e. e \<noteq> []) elems) ''/'')"

definition unix_Dir :: "string \<Rightarrow> string" where
  "unix_Dir p =
     (if CHR ''/'' \<notin> set p then ''.''
      else (let d = rev (tl (dropWhile (\<lambda>ch. ch \<noteq> CHR ''/'') (rev p)))
            in if d = [] then ''/'' else d))"

definition unix_Base :: "string \<Rightarrow> string" where
  "unix_Base p =
     (if p = [] then ''.''
      else if p = ''/'' then ''/''
      else rev (takeWhile (\<lambda>ch. ch \<noteq> CHR ''/'') (rev p)))"

definition unix_Rel :: "string \<Rightarrow> string \<Rightarrow> error + string" where
  "unix_Rel base targ =
     (if targ = base then Inr ''.''
      else if prefix (base @ ''/'') targ then Inr (drop (length base + 1) targ)
      else Inl ''Rel: target is not below the base path'')"

definition mem_Walk :: "string \<Rightarrow> MemWorld \<Rightarrow> (string \<times> bool \<times> error option) list" where
  "mem_Walk root w =
     map (\<lambda>(p, d). (p, d, None))
       (filter (\<lambda>(p, d). p = root \<or> prefix (root @ ''/'') p) (entries w))"

definition mem_ReadString :: "MemWorld \<Rightarrow> (error + string) \<times> MemWorld" where
  "mem_ReadString w =
     (case input w of
        [] \<Rightarrow> (Inl ''EOF'', w)
      | l # ls \<Rightarrow> (Inr l, w\<lparr>input := ls\<rparr>))"

text \<open>
  A line-based stand-in for the TOML codec: a root document is written as one
  \<open>key=value\<close> per line, and the scripts of a module document are read from its
  \<open>name=command\<close> lines.
\<close>

definition mem_Marshal :: "RootConfig \<Rightarrow> error + string" where
  "mem_Marshal rc =
     Inr (''name='' @ RootConfig.Name rc @ [CHR 0x0A] @
          ''version='' @ Version rc @ [CHR 0x0A] @
          ''strategy='' @ Strategy rc @ [CHR 0x0A] @
          ''vendor='' @ strconv_FormatBool (Vendor rc) @ [CHR 0x0A])"

fun mem_scripts :: "string list \<Rightarrow> (string \<rightharpoonup> string)" where
  "mem_scripts [] = Map.empty"
| "mem_scripts (l # ls) =
     (if l = [] then mem_scripts ls
      else (mem_scripts ls)
             (takeWhile (\<lambda>ch. ch \<noteq> CHR ''='') l \<mapsto> tl (dropWhile (\<lambda>ch. ch \<noteq> CHR ''='') l)))"

definition mem_Unmarshal :: "string \<Rightarrow> error + (string \<rightharpoonup> string)" where
  "mem_Unmarshal file = Inr (mem_scripts (strings_Split file (CHR 0x0A)))"

definition mem_Platform :: "MemWorld Platform" where
  "mem_Platform =
     \<lparr>filepath_Join = unix_Join, filepath_Dir = unix_Dir, filepath_Base = unix_Base,
      filepath_Rel = unix_Rel, filepath_Walk = mem_Walk,
      os_Getwd = (\<lambda>w. Inr (cwd w)), stdin_ReadString = mem_ReadString,
      fmt_Sprintf = (\<lambda>s. s),
      toml_Marshal = mem_Marshal, toml_Unmarshal = mem_Unmarshal\<rparr>"

text \<open>The configuration and the commands as \<open>main\<close> builds them, in a given world.\<close>

definition mem_Config :: "MemWorld \<Rightarrow> error + MemWorld Config" where
  "mem_Config w = NewConfig mem_Platform (NewSystemUtils mem_OS) w"

definition mem_Commands :: "MemWorld Config \<Rightarrow> MemWorld Commands" where
  "mem_Commands cfg = \<lparr>SystemUtils = NewSystemUtils mem_OS, Config = cfg\<rparr>"

definition start :: "'w \<Rightarrow> 'w state" where
  "start w = \<lparr>world = w, logged = [], calls = []\<rparr>"

section \<open>Example inputs\<close>

text \<open>
  A monorepo at \<open>/repo\<close> with two modules, visited by the walk in the order
  \<open>libs/zeta\<close>, \<open>svc/alpha\<close>. Module \<open>zeta\<close> has the scripts \<open>build\<close> and
  \<open>test\<close> (which fails); module \<open>alpha\<close> has \<open>build\<close>, and \<open>lint\<close> mapped to
  the empty string.
\<close>

definition repo_world :: MemWorld where
  "repo_world =
     \<lparr>entries = [(''/repo'', True), (''/repo/libs'', True), (''/repo/libs/zeta'', True),
                 (''/repo/libs/zeta/module.toml'', False), (''/repo/svc'', True),
                 (''/repo/svc/alpha'', True), (''/repo/svc/alpha/module.toml'', False),
                 (''/repo/work.toml'', False)],
      contents = [(''/repo/libs/zeta/module.toml'', ''build=make'' @ [CHR 0x0A] @ ''test=exit 1''),
                  (''/repo/svc/alpha/module.toml'', ''build=go build'' @ [CHR 0x0A] @ ''lint='')],
      cwd = ''/repo/svc/alpha'',
      input = []\<rparr>"

text \<open>A world with no monorepo in it and two empty answers waiting on standard input.\<close>

definition empty_world :: MemWorld where
  "empty_world =
     \<lparr>entries = [(''/tmp'', True), (''/tmp/new'', True)], contents = [],
      cwd = ''/tmp/new'', input = [[CHR 0x0A], [CHR 0x0A]]\<rparr>"

text \<open>
  The configuration \<open>NewConfig\<close> builds for a working directory and the root resolved
  from it (the empty string while the root is being resolved).
\<close>

definition mem_cfg :: "string \<Rightarrow> string \<Rightarrow> MemWorld Config" where
  "mem_cfg wd root =
     \<lparr>Runtime = \<lparr>WD = wd, ROOT = root\<rparr>,
      Static = \<lparr>MaxRecursion = 7, RootFileName = ''work.toml'',
                ModuleFileName = ''module.toml''\<rparr>,
      su = NewSystemUtils mem_OS\<rparr>"

definition repo_cmd :: "MemWorld Commands" where
  "repo_cmd = mem_Commands (mem_cfg ''/repo/svc/alpha'' ''/repo'')"

definition new_cmd :: "MemWorld Commands" where
  "new_cmd = mem_Commands (mem_cfg ''/tmp/new'' ''/tmp/new'')"

definition run_ctx :: "string \<Rightarrow> string \<Rightarrow> bool \<Rightarrow> bool \<Rightarrow> Context" where
  "run_ctx scriptName target dryRun allowMissing =
     \<lparr>Args = [scriptName], flag_target = target, flag_dry_run = dryRun,
      flag_allow_missing = allowMissing\<rparr>"

definition alpha_module :: ModuleConfig where
  "alpha_module =
     \<lparr>Name = ''alpha'', RelativePath = ''svc/alpha'',
      Scripts = Map.empty(''lint'' \<mapsto> '''', ''build'' \<mapsto> ''go build'')\<rparr>"

definition zeta_module :: ModuleConfig where
  "zeta_module =
     \<lparr>Name = ''zeta'', RelativePath = ''libs/zeta'',
      Scripts = Map.empty(''test'' \<mapsto> ''exit 1'', ''build'' \<mapsto> ''make'')\<rparr>"

text \<open>A third module, sorted last, whose \<open>test\<close> script would succeed.\<close>

definition zulu_module :: ModuleConfig where
  "zulu_module =
     \<lparr>Name = ''zulu'', RelativePath = ''svc/zulu'',
      Scripts = Map.empty(''test'' \<mapsto> ''go test'')\<rparr>"

section \<open>Vocabulary of the statements\<close>

text \<open>
  A module lacks a script when its \<open>scripts\<close> mapping has no entry of that name or
  maps the name to the empty string.
\<close>

definition lacks :: "string \<Rightarrow> ModuleConfig \<Rightarrow> bool" where
  "lacks scriptName m \<longleftrightarrow> Scripts m scriptName = None \<or> Scripts m scriptName = Some ''''"

text \<open>
  The shell calls a run of the script over the modules is made of, in the order of
  the modules: one per module that has the script, in the directory of the module.
\<close>

definition runnable ::
  "'w Platform \<Rightarrow> 'w Commands \<Rightarrow> string \<Rightarrow> ModuleConfig list \<Rightarrow> call list" where
  "runnable pf cmd scriptName modules =
     map (\<lambda>m. BashCommand (filepath_Join pf [ROOT (Runtime (Config cmd)), RelativePath m])
                 (index_map (Scripts m) scriptName))
       (filter (\<lambda>m. \<not> lacks scriptName m) modules)"

section \<open>Root resolution: the three ways the search ends\<close>

lemma getRootPath_loop_step:
  assumes "i \<le> MaxRecursion (Static cfg)" and "\<not> marked pf cfg w d" and "filepath_Dir pf d \<noteq> d"
  shows "getRootPath_loop pf cfg w i d = getRootPath_loop pf cfg w (i + 1) (filepath_Dir pf d)"
  using assms by (subst getRootPath_loop.simps) (simp add: marked_def Let_def)

lemma getRootPath_loop_found:
  "i + int k \<le> MaxRecursion (Static cfg) \<Longrightarrow>
   marked pf cfg w ((filepath_Dir pf ^^ k) d) \<Longrightarrow>
   (\<forall>j<k. \<not> marked pf cfg w ((filepath_Dir pf ^^ j) d) \<and>
           (filepath_Dir pf ^^ Suc j) d \<noteq> (filepath_Dir pf ^^ j) d) \<Longrightarrow>
   getRootPath_loop pf cfg w i d = Inr ((filepath_Dir pf ^^ k) d)"
proof (induction k arbitrary: i d)
  case 0
  then show ?case
    by (subst getRootPath_loop.simps) (simp add: marked_def)
next
  case (Suc k)
  have first: "\<not> marked pf cfg w d" "filepath_Dir pf d \<noteq> d"
    using Suc.prems(3) by force+
  have "getRootPath_loop pf cfg w (i + 1) (filepath_Dir pf d) =
          Inr ((filepath_Dir pf ^^ k) (filepath_Dir pf d))"
  proof (rule Suc.IH)
    show "i + 1 + int k \<le> MaxRecursion (Static cfg)"
      using Suc.prems(1) by simp
    show "marked pf cfg w ((filepath_Dir pf ^^ k) (filepath_Dir pf d))"
      using Suc.prems(2) by (simp add: funpow_swap1)
    show "\<forall>j<k. \<not> marked pf cfg w ((filepath_Dir pf ^^ j) (filepath_Dir pf d)) \<and>
            (filepath_Dir pf ^^ Suc j) (filepath_Dir pf d) \<noteq>
            (filepath_Dir pf ^^ j) (filepath_Dir pf d)"
    proof (intro allI impI)
      fix j assume "j < k"
      then have "Suc j < Suc k" by simp
      with Suc.prems(3)
      have "\<not> marked pf cfg w ((filepath_Dir pf ^^ Suc j) d) \<and>
            (filepath_Dir pf ^^ Suc (Suc j)) d \<noteq> (filepath_Dir pf ^^ Suc j) d"
        by blast
      then show "\<not> marked pf cfg w ((filepath_Dir pf ^^ j) (filepath_Dir pf d)) \<and>
            (filepath_Dir pf ^^ Suc j) (filepath_Dir pf d) \<noteq>
            (filepath_Dir pf ^^ j) (filepath_Dir pf d)"
        by (simp add: funpow_swap1)
    qed
  qed
  moreover have "i \<le> MaxRecursion (Static cfg)"
    using Suc.prems(1) by simp
  ultimately show ?case
    using getRootPath_loop_step[OF _ first] by (simp add: funpow_swap1)
qed

lemma getRootPath_loop_boundary:
  "i + int k \<le> MaxRecursion (Static cfg) \<Longrightarrow>
   (\<forall>j\<le>k. \<not> marked pf cfg w ((filepath_Dir pf ^^ j) d)) \<Longrightarrow>
   (\<forall>j<k. (filepath_Dir pf ^^ Suc j) d \<noteq> (filepath_Dir pf ^^ j) d) \<Longrightarrow>
   (filepath_Dir pf ^^ Suc k) d = (filepath_Dir pf ^^ k) d \<Longrightarrow>
   getRootPath_loop pf cfg w i d = Inr (WD (Runtime cfg))"
proof (induction k arbitrary: i d)
  case 0
  then show ?case
    by (subst getRootPath_loop.simps) (simp add: marked_def)
next
  case (Suc k)
  have first: "\<not> marked pf cfg w d" "filepath_Dir pf d \<noteq> d"
    using Suc.prems(2,3) by force+
  have "getRootPath_loop pf cfg w (i + 1) (filepath_Dir pf d) = Inr (WD (Runtime cfg))"
  proof (rule Suc.IH)
    show "i + 1 + int k \<le> MaxRecursion (Static cfg)"
      using Suc.prems(1) by simp
    show "\<forall>j\<le>k. \<not> marked pf cfg w ((filepath_Dir pf ^^ j) (filepath_Dir pf d))"
    proof (intro allI impI)
      fix j assume "j \<le> k"
      then have "Suc j \<le> Suc k" by simp
      with Suc.prems(2) have "\<not> marked pf cfg w ((filepath_Dir pf ^^ Suc j) d)"
        by blast
      then show "\<not> marked pf cfg w ((filepath_Dir pf ^^ j) (filepath_Dir pf d))"
        by (simp add: funpow_swap1)
    qed
    show "\<forall>j<k. (filepath_Dir pf ^^ Suc j) (filepath_Dir pf d) \<noteq>
                 (filepath_Dir pf ^^ j) (filepath_Dir pf d)"
    proof (intro allI impI)
      fix j assume "j < k"
      then have "Suc j < Suc k" by simp
      with Suc.prems(3)
      have "(filepath_Dir pf ^^ Suc (Suc j)) d \<noteq> (filepath_Dir pf ^^ Suc j) d"
        by blast
      then show "(filepath_Dir pf ^^ Suc j) (filepath_Dir pf d) \<noteq>
                 (filepath_Dir pf ^^ j) (filepath_Dir pf d)"
        by (simp add: funpow_swap1)
    qed
    show "(filepath_Dir pf ^^ Suc k) (filepath_Dir pf d) = (filepath_Dir pf ^^ k) (filepath_Dir pf d)"
      using Suc.prems(4) by (simp add: funpow_swap1)
  qed
  moreover have "i \<le> MaxRecursion (Static cfg)"
    using Suc.prems(1) by simp
  ultimately show ?case
    using getRootPath_loop_step[OF _ first] by simp
qed

lemma getRootPath_loop_exhausted:
  "i + int k = MaxRecursion (Static cfg) + 1 \<Longrightarrow>
   (\<forall>j<k. \<not> marked pf cfg w ((filepath_Dir pf ^^ j) d) \<and>
           (filepath_Dir pf ^^ Suc j) d \<noteq> (filepath_Dir pf ^^ j) d) \<Longrightarrow>
   getRootPath_loop pf cfg w i d = Inl ''root not found''"
proof (induction k arbitrary: i d)
  case 0
  then show ?case
    by (subst getRootPath_loop.simps) simp
next
  case (Suc k)
  have first: "\<not> marked pf cfg w d" "filepath_Dir pf d \<noteq> d"
    using Suc.prems(2) by force+
  have "getRootPath_loop pf cfg w (i + 1) (filepath_Dir pf d) = Inl ''root not found''"
  proof (rule Suc.IH)
    show "i + 1 + int k = MaxRecursion (Static cfg) + 1"
      using Suc.prems(1) by simp
    show "\<forall>j<k. \<not> marked pf cfg w ((filepath_Dir pf ^^ j) (filepath_Dir pf d)) \<and>
            (filepath_Dir pf ^^ Suc j) (filepath_Dir pf d) \<noteq>
            (filepath_Dir pf ^^ j) (filepath_Dir pf d)"
    proof (intro allI impI)
      fix j assume "j < k"
      then have "Suc j < Suc k" by simp
      with Suc.prems(2)
      have "\<not> marked pf cfg w ((filepath_Dir pf ^^ Suc j) d) \<and>
            (filepath_Dir pf ^^ Suc (Suc j)) d \<noteq> (filepath_Dir pf ^^ Suc j) d"
        by blast
      then show "\<not> marked pf cfg w ((filepath_Dir pf ^^ j) (filepath_Dir pf d)) \<and>
            (filepath_Dir pf ^^ Suc j) (filepath_Dir pf d) \<noteq>
            (filepath_Dir pf ^^ j) (filepath_Dir pf d)"
        by (simp add: funpow_swap1)
    qed
  qed
  moreover have "i \<le> MaxRecursion (Static cfg)"
    using Suc.prems(1) by simp
  ultimately show ?case
    using getRootPath_loop_step[OF _ first] by simp
qed

text \<open>
  The configuration the program starts with has the limit 7, and its root is what the
  search returns from the working directory.
\<close>

lemma NewConfig_root:
  assumes "NewConfig pf s w = Inr cfg"
  shows "MaxRecursion (Static cfg) = 7 \<and> su cfg = s \<and>
         os_Getwd pf w = Inr (WD (Runtime cfg)) \<and>
         getRootPath pf (cfg\<lparr>Runtime := (Runtime cfg)\<lparr>ROOT := ''''\<rparr>\<rparr>) w =
           Inr (ROOT (Runtime cfg))"
  using assms by (auto simp: NewConfig_def Let_def split: sum.splits)

text \<open>
  C1 (as amended). With the compiled-in limit of 7 and a non-empty working directory,
  the search ends in one of three ways. If the directory \<open>k \<le> 7\<close> parent hops up
  holds the marker and no nearer one does, that directory is the root. If the
  filesystem boundary (a directory that is its own parent) is reached within 7 hops
  and no directory up to it holds the marker, the working directory is returned as
  the fallback. If none of the 8 directories visited holds the marker and none of
  them is the boundary, the result is the error \<open>root not found\<close>.
\<close>

theorem getRootPath_resolution:
  assumes "MaxRecursion (Static cfg) = 7" and "WD (Runtime cfg) \<noteq> ''''"
  shows "(k \<le> 7 \<and> marked pf cfg w (ancestor pf cfg k) \<and>
          (\<forall>j<k. \<not> marked pf cfg w (ancestor pf cfg j) \<and>
                  ancestor pf cfg (Suc j) \<noteq> ancestor pf cfg j)
          \<longrightarrow> getRootPath pf cfg w = Inr (ancestor pf cfg k))
       \<and> (k \<le> 7 \<and> (\<forall>j\<le>k. \<not> marked pf cfg w (ancestor pf cfg j)) \<and>
          (\<forall>j<k. ancestor pf cfg (Suc j) \<noteq> ancestor pf cfg j) \<and>
          ancestor pf cfg (Suc k) = ancestor pf cfg k
          \<longrightarrow> getRootPath pf cfg w = Inr (WD (Runtime cfg)))
       \<and> ((\<forall>j\<le>7. \<not> marked pf cfg w (ancestor pf cfg j) \<and>
                   ancestor pf cfg (Suc j) \<noteq> ancestor pf cfg j)
          \<longrightarrow> getRootPath pf cfg w = Inl ''root not found'')"
proof (intro conjI impI)
  assume h: "k \<le> 7 \<and> marked pf cfg w (ancestor pf cfg k) \<and>
          (\<forall>j<k. \<not> marked pf cfg w (ancestor pf cfg j) \<and>
                  ancestor pf cfg (Suc j) \<noteq> ancestor pf cfg j)"
  have "getRootPath_loop pf cfg w 0 (WD (Runtime cfg)) =
          Inr ((filepath_Dir pf ^^ k) (WD (Runtime cfg)))"
    by (rule getRootPath_loop_found) (use h assms in \<open>simp_all add: ancestor_def\<close>)
  then show "getRootPath pf cfg w = Inr (ancestor pf cfg k)"
    using assms by (simp add: getRootPath_def ancestor_def)
next
  assume h: "k \<le> 7 \<and> (\<forall>j\<le>k. \<not> marked pf cfg w (ancestor pf cfg j)) \<and>
          (\<forall>j<k. ancestor pf cfg (Suc j) \<noteq> ancestor pf cfg j) \<and>
          ancestor pf cfg (Suc k) = ancestor pf cfg k"
  have "getRootPath_loop pf cfg w 0 (WD (Runtime cfg)) = Inr (WD (Runtime cfg))"
    by (rule getRootPath_loop_boundary[where k = k]) (use h assms in \<open>simp_all add: ancestor_def\<close>)
  then show "getRootPath pf cfg w = Inr (WD (Runtime cfg))"
    using assms by (simp add: getRootPath_def)
next
  assume h: "\<forall>j\<le>7. \<not> marked pf cfg w (ancestor pf cfg j) \<and>
                   ancestor pf cfg (Suc j) \<noteq> ancestor pf cfg j"
  have "getRootPath_loop pf cfg w 0 (WD (Runtime cfg)) = Inl ''root not found''"
  proof (rule getRootPath_loop_exhausted[where k = 8])
    show "0 + int 8 = MaxRecursion (Static cfg) + 1"
      using assms by simp
    show "\<forall>j<8. \<not> marked pf cfg w ((filepath_Dir pf ^^ j) (WD (Runtime cfg))) \<and>
           (filepath_Dir pf ^^ Suc j) (WD (Runtime cfg)) \<noteq>
           (filepath_Dir pf ^^ j) (WD (Runtime cfg))"
      using h by (auto simp: ancestor_def)
  qed
  then show "getRootPath pf cfg w = Inl ''root not found''"
    using assms by (simp add: getRootPath_def)
qed

subsection \<open>The example world, evaluated\<close>

lemma all_le_Suc: "(\<forall>j\<le>Suc n. P j) \<longleftrightarrow> P (Suc n) \<and> (\<forall>j\<le>n. P j)"
  by (auto simp: le_Suc_eq)

lemma mem_cfg_simps:
  "MaxRecursion (Static (mem_cfg wd r)) = 7"
  "RootFileName (Static (mem_cfg wd r)) = ''work.toml''"
  "ModuleFileName (Static (mem_cfg wd r)) = ''module.toml''"
  "WD (Runtime (mem_cfg wd r)) = wd"
  "ROOT (Runtime (mem_cfg wd r)) = r"
  "su (mem_cfg wd r) = NewSystemUtils mem_OS"
  by (simp_all add: mem_cfg_def)

lemma mem_Platform_simps:
  "filepath_Join mem_Platform = unix_Join"
  "filepath_Dir mem_Platform = unix_Dir"
  "filepath_Base mem_Platform = unix_Base"
  "filepath_Rel mem_Platform = unix_Rel"
  "filepath_Walk mem_Platform = mem_Walk"
  "stdin_ReadString mem_Platform = mem_ReadString"
  "fmt_Sprintf mem_Platform = (\<lambda>s. s)"
  "toml_Marshal mem_Platform = mem_Marshal"
  "toml_Unmarshal mem_Platform = mem_Unmarshal"
  by (simp_all add: mem_Platform_def)

lemma mem_su_simps:
  "Fs_Exists (NewSystemUtils mem_OS) p w \<longleftrightarrow> p \<in> set (map fst (entries w))"
  "Fs_Read (NewSystemUtils mem_OS) = mem_ReadFile"
  "Fs_Write (NewSystemUtils mem_OS) = mem_WriteFile"
proof -
  have "map_of (entries w) p = None \<longleftrightarrow> p \<notin> set (map fst (entries w))"
    by (simp add: map_of_eq_None_iff)
  then show "Fs_Exists (NewSystemUtils mem_OS) p w \<longleftrightarrow> p \<in> set (map fst (entries w))"
    by (cases "map_of (entries w) p")
       (simp_all add: NewSystemUtils_def mem_OS_def Exists_impl_def mem_Stat_def)
  show "Fs_Read (NewSystemUtils mem_OS) = mem_ReadFile"
    and "Fs_Write (NewSystemUtils mem_OS) = mem_WriteFile"
    by (simp_all add: NewSystemUtils_def mem_OS_def Read_impl_def Write_impl_def fun_eq_iff)
qed

lemma ancestor_mem: "ancestor mem_Platform (mem_cfg wd r) k = (unix_Dir ^^ k) wd"
  by (simp add: ancestor_def mem_cfg_simps mem_Platform_simps)

lemma marked_mem:
  "marked mem_Platform (mem_cfg wd r) w d \<longleftrightarrow>
     unix_Join [d, ''work.toml''] \<in> set (map fst (entries w))"
  by (simp add: marked_def mem_cfg_simps mem_Platform_simps mem_su_simps)

lemma unix_Dir_examples:
  "unix_Dir ''/repo/svc/alpha'' = ''/repo/svc''"
  "unix_Dir ''/repo/svc'' = ''/repo''"
  "unix_Dir ''/tmp/new'' = ''/tmp''"
  "unix_Dir ''/tmp'' = ''/''"
  "unix_Dir ''/'' = ''/''"
  "unix_Dir ''/a/b/c/d/e/f/g/h'' = ''/a/b/c/d/e/f/g''"
  "unix_Dir ''/a/b/c/d/e/f/g'' = ''/a/b/c/d/e/f''"
  "unix_Dir ''/a/b/c/d/e/f'' = ''/a/b/c/d/e''"
  "unix_Dir ''/a/b/c/d/e'' = ''/a/b/c/d''"
  "unix_Dir ''/a/b/c/d'' = ''/a/b/c''"
  "unix_Dir ''/a/b/c'' = ''/a/b''"
  "unix_Dir ''/a/b'' = ''/a''"
  "unix_Dir ''/a'' = ''/''"
  by (simp_all add: unix_Dir_def)

text \<open>
  \<open>NewConfig\<close> in the example monorepo builds the configuration \<open>mem_cfg\<close>
  stands for; eight levels deep in a tree without a marker it fails, and no command
  runs.
\<close>

lemma mem_Config_repo:
  "(case mem_Config repo_world of
      Inl e \<Rightarrow> None
    | Inr cfg \<Rightarrow> Some (Runtime cfg, Static cfg)) =
   Some (Runtime (mem_cfg ''/repo/svc/alpha'' ''/repo''),
         Static (mem_cfg ''/repo/svc/alpha'' ''/repo''))"
  by code_simp

lemma mem_Config_deep:
  "(case mem_Config (empty_world\<lparr>cwd := ''/a/b/c/d/e/f/g/h''\<rparr>) of
      Inl e \<Rightarrow> Some e
    | Inr cfg \<Rightarrow> None) =
   Some ''root not found''"
  by code_simp

text \<open>
  The three endings of the search at work: from \<open>/repo/svc/alpha\<close> the root
  \<open>/repo\<close> is found two hops up; from \<open>/tmp/new\<close>, with no marker anywhere, the
  boundary \<open>/\<close> is reached after two hops and the working directory comes back; from
  a directory eight levels deep, with no marker anywhere, the search gives up.
\<close>

theorem getRootPath_resolution_witness:
  "getRootPath mem_Platform (mem_cfg ''/repo/svc/alpha'' '''') repo_world = Inr ''/repo''
   \<and> getRootPath mem_Platform (mem_cfg ''/tmp/new'' '''') empty_world = Inr ''/tmp/new''
   \<and> getRootPath mem_Platform (mem_cfg ''/a/b/c/d/e/f/g/h'' '''') empty_world =
       Inl ''root not found''"
proof (intro conjI)
  show "getRootPath mem_Platform (mem_cfg ''/repo/svc/alpha'' '''') repo_world = Inr ''/repo''"
    using getRootPath_resolution
            [of "mem_cfg ''/repo/svc/alpha'' ''''" "Suc (Suc 0)" mem_Platform repo_world]
    by (simp add: All_less_Suc mem_cfg_simps ancestor_mem marked_mem unix_Dir_examples
        unix_Join_def repo_world_def)
  show "getRootPath mem_Platform (mem_cfg ''/tmp/new'' '''') empty_world = Inr ''/tmp/new''"
    using getRootPath_resolution
            [of "mem_cfg ''/tmp/new'' ''''" "Suc (Suc 0)" mem_Platform empty_world]
    by (simp add: All_less_Suc all_le_Suc mem_cfg_simps ancestor_mem marked_mem
        unix_Dir_examples unix_Join_def empty_world_def)
  show "getRootPath mem_Platform (mem_cfg ''/a/b/c/d/e/f/g/h'' '''') empty_world =
          Inl ''root not found''"
    using getRootPath_resolution
            [of "mem_cfg ''/a/b/c/d/e/f/g/h'' ''''" 0 mem_Platform empty_world]
    by (simp add: numeral_eq_Suc all_le_Suc mem_cfg_simps ancestor_mem marked_mem
        unix_Dir_examples unix_Join_def empty_world_def)
qed

text \<open>
  C1 as stated fails: started eight levels deep in a tree without a marker, the
  search uses up its hops before it reaches \<open>/\<close>, and the result is an error, not
  the working directory.
\<close>

theorem getRootPath_hop_limit_counterexample:
  "getRootPath mem_Platform (mem_cfg ''/a/b/c/d/e/f/g/h'' '''') empty_world =
     Inl ''root not found''
   \<and> getRootPath mem_Platform (mem_cfg ''/a/b/c/d/e/f/g/h'' '''') empty_world \<noteq>
     Inr ''/a/b/c/d/e/f/g/h''"
  by (simp add: getRootPath_def getRootPath_loop.simps mem_cfg_simps mem_Platform_simps
      mem_su_simps unix_Dir_examples unix_Join_def empty_world_def Let_def)

section \<open>The run command: the loops in closed form\<close>

lemma strings_Split_not_Nil: "strings_Split s sep \<noteq> []"
  by (induction s) (auto split: list.splits)

lemma Run_checkRoot_eq:
  "Run_checkRoot targets rest =
     (if ''root'' \<in> set rest \<and> length targets > 1 then
        Some ''cannot run script in root and in modules at the same time, you're being too fancy''
      else None)"
  by (induction rest) auto

lemma contains_iff: "contains s e \<longleftrightarrow> e \<in> set s"
  by (induction s) auto

lemma Run_selectModules_eq:
  "Run_selectModules targets target0 allModules modules =
     modules @ filter (\<lambda>m. target0 = ''all'' \<or> Name m \<in> set targets) allModules"
  by (induction allModules arbitrary: modules) (auto simp: contains_iff)

lemma lacks_index_map: "lacks scriptName m \<longleftrightarrow> index_map (Scripts m) scriptName = ''''"
  by (auto simp: lacks_def index_map_def split: option.splits)

lemma Run_modulesWithoutScript_eq:
  "Run_modulesWithoutScript scriptName modules acc =
     acc @ map Name (filter (lacks scriptName) modules)"
  by (induction modules arbitrary: acc) (auto simp: lacks_def index_map_def split: option.splits)

lemma length_filter_eq_iff: "length (filter P xs) = length xs \<longleftrightarrow> (\<forall>x\<in>set xs. P x)"
proof -
  have "length (filter P xs) = length xs \<longleftrightarrow> length (filter (\<lambda>x. \<not> P x) xs) = 0"
    using sum_length_filter_compl[of P xs] by arith
  also have "\<dots> \<longleftrightarrow> (\<forall>x\<in>set xs. P x)"
    by (simp add: filter_empty_conv)
  finally show ?thesis .
qed

lemma logLn_frame [simp]:
  "calls (logLn l msg st) = calls st"
  "world (logLn l msg st) = world st"
  by (simp_all add: logLn_def)

lemma call_BashCommand_calls:
  "call_BashCommand s path script st = (r, st') \<Longrightarrow>
   calls st' = calls st @ [(BashCommand path script, r)] \<and>
   r = fst (Exec_BashCommand s path script (world st))"
  by (auto simp: call_BashCommand_def split: prod.splits)

subsection \<open>The execution loop\<close>

lemma Run_execute_dry:
  "calls (snd (Run_execute pf cmd scriptName True modules st)) = calls st \<and>
   world (snd (Run_execute pf cmd scriptName True modules st)) = world st \<and>
   fst (Run_execute pf cmd scriptName True modules st) = None"
  by (induction modules arbitrary: st) (simp_all add: Let_def)

lemma Run_execute_trace:
  "Run_execute pf cmd scriptName False modules st = (r, st') \<Longrightarrow>
   \<exists>cs. calls st' = calls st @ cs \<and>
        prefix (map fst cs) (runnable pf cmd scriptName modules) \<and>
        (\<forall>x\<in>set (butlast cs). snd x = None) \<and>
        (\<forall>x\<in>set cs. \<exists>p s w. x = (BashCommand p s, fst (Exec_BashCommand (SystemUtils cmd) p s w))) \<and>
        (case r of
           None \<Rightarrow> map fst cs = runnable pf cmd scriptName modules \<and> (\<forall>x\<in>set cs. snd x = None)
         | Some e \<Rightarrow> cs \<noteq> [] \<and> snd (last cs) = Some e)"
proof (induction modules arbitrary: st)
  case Nil
  then show ?case by (auto simp: runnable_def)
next
  case (Cons m modules)
  show ?case
  proof (cases "lacks scriptName m")
    case True
    then have exec: "Run_execute pf cmd scriptName False modules
                       (logLn InfoLn ''script is empty, skipping'' st) = (r, st')"
      using Cons.prems by (simp add: lacks_index_map Let_def)
    have eq: "runnable pf cmd scriptName (m # modules) = runnable pf cmd scriptName modules"
      using True by (simp add: runnable_def)
    from Cons.IH[OF exec] show ?thesis unfolding eq by simp
  next
    case False
    define path where "path = filepath_Join pf [ROOT (Runtime (Config cmd)), RelativePath m]"
    define script where "script = index_map (Scripts m) scriptName"
    define st1 where
      "st1 = logLn InfoLn (''running script '' @ scriptName @ '' in module '' @ Name m) st"
    obtain r1 st2 where c: "call_BashCommand (SystemUtils cmd) path script st1 = (r1, st2)"
      by (cases "call_BashCommand (SystemUtils cmd) path script st1") auto
    have cs2: "calls st2 = calls st @ [(BashCommand path script, r1)]"
      and r1: "r1 = fst (Exec_BashCommand (SystemUtils cmd) path script (world st1))"
      using call_BashCommand_calls[OF c] by (simp_all add: st1_def)
    have hd: "runnable pf cmd scriptName (m # modules) =
                BashCommand path script # runnable pf cmd scriptName modules"
      using False by (simp add: runnable_def path_def script_def)
    show ?thesis
    proof (cases r1)
      case None
      then have "Run_execute pf cmd scriptName False modules st2 = (r, st')"
        using Cons.prems False c
        by (simp add: lacks_index_map Let_def path_def script_def st1_def)
      from Cons.IH[OF this] obtain cs where cs:
        "calls st' = calls st2 @ cs"
        "prefix (map fst cs) (runnable pf cmd scriptName modules)"
        "\<forall>x\<in>set (butlast cs). snd x = None"
        "\<forall>x\<in>set cs. \<exists>p s w. x = (BashCommand p s, fst (Exec_BashCommand (SystemUtils cmd) p s w))"
        "case r of
           None \<Rightarrow> map fst cs = runnable pf cmd scriptName modules \<and> (\<forall>x\<in>set cs. snd x = None)
         | Some e \<Rightarrow> cs \<noteq> [] \<and> snd (last cs) = Some e"
        by blast
      let ?cs = "(BashCommand path script, r1) # cs"
      have "calls st' = calls st @ ?cs"
        using cs(1) cs2 by simp
      moreover have "prefix (map fst ?cs) (runnable pf cmd scriptName (m # modules))"
        using cs(2) hd by simp
      moreover have "\<forall>x\<in>set (butlast ?cs). snd x = None"
        using cs(3) None by auto
      moreover have "\<forall>x\<in>set ?cs. \<exists>p s w.
          x = (BashCommand p s, fst (Exec_BashCommand (SystemUtils cmd) p s w))"
        using cs(4) r1 by auto
      moreover have "case r of
           None \<Rightarrow> map fst ?cs = runnable pf cmd scriptName (m # modules) \<and>
                   (\<forall>x\<in>set ?cs. snd x = None)
         | Some e \<Rightarrow> ?cs \<noteq> [] \<and> snd (last ?cs) = Some e"
        using cs(5) hd None by (auto split: option.splits)
      ultimately show ?thesis by blast
    next
      case (Some e)
      then have "r = Some e" "st' = st2"
        using Cons.prems False c
        by (simp_all add: lacks_index_map Let_def path_def script_def st1_def)
      moreover have "\<exists>p s w. (BashCommand path script, r1) =
          (BashCommand p s, fst (Exec_BashCommand (SystemUtils cmd) p s w))"
        using r1 by blast
      ultimately show ?thesis
        using cs2 hd Some by (intro exI[of _ "[(BashCommand path script, r1)]"]) simp
    qed
  qed
qed

lemma Run_execute_some_calls:
  assumes "Run_execute pf cmd scriptName dryRun modules st = (Some e, st')"
  shows "calls st' \<noteq> calls st"
proof (cases dryRun)
  case True
  with assms Run_execute_dry[of pf cmd scriptName modules st] show ?thesis by simp
next
  case False
  with assms Run_execute_trace[of pf cmd scriptName modules st "Some e" st'] show ?thesis by auto
qed

lemma BashCommand_impl_error:
  "fst (BashCommand_impl os absolutePath script w) = Some e \<Longrightarrow>
   e = ''directory does not exist: '' @ absolutePath \<or>
   (\<exists>cause. e = ''failed to run command in '' @ absolutePath @ '': '' @ cause)"
  by (auto simp: BashCommand_impl_def split: if_splits prod.splits option.splits)

subsection \<open>The policy on missing scripts\<close>

lemma Run_dispatch_reject_all:
  "\<forall>m\<in>set modules. lacks scriptName m \<Longrightarrow>
   Run_dispatch pf cmd scriptName allowMissing dryRun modules st =
     (Some ''not running script, because it is missing in all modules'',
      logLn VerboseLn ''checking if all modules have the script'' st)"
  by (simp add: Run_dispatch_def Run_modulesWithoutScript_eq length_filter_eq_iff Let_def)

lemma Run_dispatch_reject_some:
  "\<not> (\<forall>m\<in>set modules. lacks scriptName m) \<Longrightarrow> \<exists>m\<in>set modules. lacks scriptName m \<Longrightarrow>
   \<not> allowMissing \<Longrightarrow>
   Run_dispatch pf cmd scriptName allowMissing dryRun modules st =
     (Some (''not running script, because it is missing in following modules '' @ [CHR 0x27] @
            scriptName @ ''' :'' @
            strings_Join (map Name (filter (lacks scriptName) modules)) '', ''),
      logLn VerboseLn ''checking if all modules have the script'' st)"
  by (auto simp: Run_dispatch_def Run_modulesWithoutScript_eq length_filter_eq_iff
      filter_empty_conv Let_def)

lemma Run_dispatch_permit:
  assumes "\<not> (\<forall>m\<in>set modules. lacks scriptName m)"
    and "(\<forall>m\<in>set modules. \<not> lacks scriptName m) \<or> allowMissing"
  shows "\<exists>st1. calls st1 = calls st \<and> world st1 = world st \<and>
     Run_dispatch pf cmd scriptName allowMissing dryRun modules st =
       Run_execute pf cmd scriptName dryRun modules st1"
proof -
  let ?st0 = "logLn VerboseLn ''checking if all modules have the script'' st"
  let ?mws = "map Name (filter (lacks scriptName) modules)"
  let ?st1 = "if length ?mws > 0 \<and> allowMissing then
                logLn VerboseLn
                  (''script is missing in following modules (but flag allowMissing was passed) '' @
                   [CHR 0x27] @ scriptName @ ''' :'' @ strings_Join ?mws '', '') ?st0
              else logLn VerboseLn ''all modules have the script'' ?st0"
  have "Run_dispatch pf cmd scriptName allowMissing dryRun modules st =
          Run_execute pf cmd scriptName dryRun modules ?st1"
    using assms
    by (auto simp: Run_dispatch_def Run_modulesWithoutScript_eq length_filter_eq_iff
        filter_empty_conv Let_def)
  moreover have "calls ?st1 = calls st" "world ?st1 = world st"
    by simp_all
  ultimately show ?thesis by blast
qed

lemma Run_dispatch_dry_frame:
  "calls (snd (Run_dispatch pf cmd scriptName allowMissing True modules st)) = calls st \<and>
   world (snd (Run_dispatch pf cmd scriptName allowMissing True modules st)) = world st"
proof -
  let ?r = "Run_dispatch pf cmd scriptName allowMissing True modules st"
  let ?all = "\<forall>m\<in>set modules. lacks scriptName m"
  let ?ok = "(\<forall>m\<in>set modules. \<not> lacks scriptName m) \<or> allowMissing"
  have p: "calls (snd ?r) = calls st \<and> world (snd ?r) = world st" if "\<not> ?all" "?ok"
  proof -
    from Run_dispatch_permit[OF that] obtain st1 where
      st1: "calls st1 = calls st" "world st1 = world st"
           "?r = Run_execute pf cmd scriptName True modules st1"
      by blast
    with Run_execute_dry[of pf cmd scriptName modules st1] show ?thesis by simp
  qed
  have q: "calls (snd ?r) = calls st \<and> world (snd ?r) = world st" if "?all"
    using that by (simp add: Run_dispatch_reject_all)
  have q': "calls (snd ?r) = calls st \<and> world (snd ?r) = world st" if "\<not> ?all" "\<not> ?ok"
  proof -
    from that have "\<exists>m\<in>set modules. lacks scriptName m" "\<not> allowMissing" by blast+
    with that(1) show ?thesis by (simp add: Run_dispatch_reject_some)
  qed
  show ?thesis using p q q' by blast
qed

lemma Run_dispatch_dry_permit:
  assumes "\<not> (\<forall>m\<in>set modules. lacks scriptName m)"
    and "(\<forall>m\<in>set modules. \<not> lacks scriptName m) \<or> allowMissing"
  shows "fst (Run_dispatch pf cmd scriptName allowMissing True modules st) = None"
proof -
  from Run_dispatch_permit[OF assms] obtain st1 where
    "Run_dispatch pf cmd scriptName allowMissing True modules st =
       Run_execute pf cmd scriptName True modules st1"
    by blast
  with Run_execute_dry[of pf cmd scriptName modules st1] show ?thesis by simp
qed

subsection \<open>The example modules, evaluated\<close>

lemma repo_cmd_simps:
  "SystemUtils repo_cmd = NewSystemUtils mem_OS"
  "Config repo_cmd = mem_cfg ''/repo/svc/alpha'' ''/repo''"
  by (simp_all add: repo_cmd_def mem_Commands_def)

lemma lacks_examples:
  "lacks ''lint'' alpha_module" "lacks ''lint'' zeta_module"
  "lacks ''test'' alpha_module" "\<not> lacks ''test'' zeta_module" "\<not> lacks ''test'' zulu_module"
  "\<not> lacks ''build'' alpha_module" "\<not> lacks ''build'' zeta_module"
  by (simp_all add: lacks_def alpha_module_def zeta_module_def zulu_module_def)

lemma module_examples:
  "Name alpha_module = ''alpha''" "Name zeta_module = ''zeta''" "Name zulu_module = ''zulu''"
  "RelativePath alpha_module = ''svc/alpha''" "RelativePath zeta_module = ''libs/zeta''"
  "RelativePath zulu_module = ''svc/zulu''"
  "index_map (Scripts alpha_module) ''build'' = ''go build''"
  "index_map (Scripts zeta_module) ''build'' = ''make''"
  "index_map (Scripts zeta_module) ''test'' = ''exit 1''"
  "index_map (Scripts zulu_module) ''test'' = ''go test''"
  by (simp_all add: alpha_module_def zeta_module_def zulu_module_def index_map_def)

lemma runnable_examples:
  "runnable mem_Platform repo_cmd ''test'' [alpha_module, zeta_module, zulu_module] =
     [BashCommand ''/repo/libs/zeta'' ''exit 1'', BashCommand ''/repo/svc/zulu'' ''go test'']"
  "runnable mem_Platform repo_cmd ''build'' [alpha_module, zeta_module] =
     [BashCommand ''/repo/svc/alpha'' ''go build'', BashCommand ''/repo/libs/zeta'' ''make'']"
  by (simp_all add: runnable_def lacks_examples module_examples repo_cmd_simps mem_cfg_simps
      mem_Platform_simps unix_Join_def)

lemma BashCommand_zeta_fails:
  "Exec_BashCommand (NewSystemUtils mem_OS) ''/repo/libs/zeta'' ''exit 1'' repo_world =
     (Some ''failed to run command in /repo/libs/zeta: exit status 1'', repo_world)"
  by (simp add: NewSystemUtils_def BashCommand_impl_def mem_OS_def mem_Stat_def mem_IsNotExist_def
      mem_cmd_Run_def repo_world_def)

section \<open>The run command: classification and policy\<close>

text \<open>
  C2. The dispatch part of the run command fails without having called any
  collaborator exactly when every selected module lacks the script, or when some but
  not all lack it and \<open>allowMissing\<close> is false. In the first case the error is the
  \<open>missing in all modules\<close> one whatever \<open>allowMissing\<close> is; in the second the
  error lists the names of the modules that lack the script. A module lacks the
  script also when the script is mapped to the empty string (see \<open>lacks\<close>). This
  holds for every list of modules, the empty one included.
\<close>

theorem Run_dispatch_validation:
  "(((\<exists>err. fst (Run_dispatch pf cmd scriptName allowMissing dryRun modules st) = Some err) \<and>
     calls (snd (Run_dispatch pf cmd scriptName allowMissing dryRun modules st)) = calls st)
    \<longleftrightarrow>
    ((\<forall>m\<in>set modules. lacks scriptName m) \<or>
     ((\<exists>m\<in>set modules. lacks scriptName m) \<and> \<not> (\<forall>m\<in>set modules. lacks scriptName m) \<and>
      \<not> allowMissing)))
   \<and> ((\<forall>m\<in>set modules. lacks scriptName m) \<longrightarrow>
        fst (Run_dispatch pf cmd scriptName allowMissing dryRun modules st) =
          Some ''not running script, because it is missing in all modules'')
   \<and> ((\<exists>m\<in>set modules. lacks scriptName m) \<and> \<not> (\<forall>m\<in>set modules. lacks scriptName m) \<and>
        \<not> allowMissing \<longrightarrow>
        fst (Run_dispatch pf cmd scriptName allowMissing dryRun modules st) =
          Some (''not running script, because it is missing in following modules '' @ [CHR 0x27] @
                scriptName @ ''' :'' @
                strings_Join (map Name (filter (lacks scriptName) modules)) '', ''))"
proof -
  let ?r = "Run_dispatch pf cmd scriptName allowMissing dryRun modules st"
  let ?all = "\<forall>m\<in>set modules. lacks scriptName m"
  let ?some = "\<exists>m\<in>set modules. lacks scriptName m"
  have a: "?all \<Longrightarrow>
      fst ?r = Some ''not running script, because it is missing in all modules'' \<and>
      calls (snd ?r) = calls st"
    by (simp add: Run_dispatch_reject_all)
  have b: "?some \<and> \<not> ?all \<and> \<not> allowMissing \<Longrightarrow>
      fst ?r = Some (''not running script, because it is missing in following modules '' @
                [CHR 0x27] @ scriptName @ ''' :'' @
                strings_Join (map Name (filter (lacks scriptName) modules)) '', '') \<and>
      calls (snd ?r) = calls st"
    by (simp add: Run_dispatch_reject_some)
  have c: "\<not> ?all \<Longrightarrow> \<not> (?some \<and> \<not> allowMissing) \<Longrightarrow>
      \<not> ((\<exists>err. fst ?r = Some err) \<and> calls (snd ?r) = calls st)"
  proof
    assume na: "\<not> ?all" and ns: "\<not> (?some \<and> \<not> allowMissing)"
      and f: "(\<exists>err. fst ?r = Some err) \<and> calls (snd ?r) = calls st"
    from ns have "(\<forall>m\<in>set modules. \<not> lacks scriptName m) \<or> allowMissing"
      by blast
    from Run_dispatch_permit[OF na this] obtain st1 where
      st1: "calls st1 = calls st" "?r = Run_execute pf cmd scriptName dryRun modules st1"
      by blast
    from f obtain err where "fst ?r = Some err"
      by blast
    then have "Run_execute pf cmd scriptName dryRun modules st1 = (Some err, snd ?r)"
      using st1(2) by (metis prod.collapse)
    from Run_execute_some_calls[OF this] st1(1) f show False
      by simp
  qed
  show ?thesis
    using a b c by blast
qed

text \<open>
  On the example modules: \<open>lint\<close> is missing in both (in \<open>alpha\<close> it is mapped to
  the empty string), so the run fails even with \<open>allowMissing\<close>; \<open>test\<close> is missing
  in \<open>alpha\<close> alone, and the error names it; \<open>build\<close> is missing nowhere, and no
  failure comes before the execution.
\<close>

theorem Run_dispatch_validation_witness:
  "fst (Run_dispatch mem_Platform repo_cmd ''lint'' True False [alpha_module, zeta_module]
          (start repo_world)) =
     Some ''not running script, because it is missing in all modules''
   \<and> fst (Run_dispatch mem_Platform repo_cmd ''test'' False False [alpha_module, zeta_module]
          (start repo_world)) =
     Some ''not running script, because it is missing in following modules 'test' :alpha''
   \<and> \<not> ((\<exists>err. fst (Run_dispatch mem_Platform repo_cmd ''build'' False False
                       [alpha_module, zeta_module] (start repo_world)) = Some err) \<and>
         calls (snd (Run_dispatch mem_Platform repo_cmd ''build'' False False
                       [alpha_module, zeta_module] (start repo_world))) =
         calls (start repo_world))"
proof (intro conjI)
  show "fst (Run_dispatch mem_Platform repo_cmd ''lint'' True False [alpha_module, zeta_module]
          (start repo_world)) =
     Some ''not running script, because it is missing in all modules''"
    using Run_dispatch_validation
            [of mem_Platform repo_cmd "''lint''" True False "[alpha_module, zeta_module]"
                "start repo_world"]
    by (simp add: lacks_examples)
  show "fst (Run_dispatch mem_Platform repo_cmd ''test'' False False [alpha_module, zeta_module]
          (start repo_world)) =
     Some ''not running script, because it is missing in following modules 'test' :alpha''"
    using Run_dispatch_validation
            [of mem_Platform repo_cmd "''test''" False False "[alpha_module, zeta_module]"
                "start repo_world"]
    by (simp add: lacks_examples module_examples)
  show "\<not> ((\<exists>err. fst (Run_dispatch mem_Platform repo_cmd ''build'' False False
                       [alpha_module, zeta_module] (start repo_world)) = Some err) \<and>
         calls (snd (Run_dispatch mem_Platform repo_cmd ''build'' False False
                       [alpha_module, zeta_module] (start repo_world))) =
         calls (start repo_world))"
    using Run_dispatch_validation
            [of mem_Platform repo_cmd "''build''" False False "[alpha_module, zeta_module]"
                "start repo_world"]
    by (simp add: lacks_examples)
qed

section \<open>The run command: dry run\<close>

text \<open>
  C4. With \<open>dryRun\<close> set, the dispatch part of the run command calls no collaborator
  at all (the recorded calls and the outside world are as before), whatever the
  modules, the script name and \<open>allowMissing\<close> are; and it returns no error whenever
  the policy on missing scripts lets the run through, that is when not every module
  lacks the script and either none lacks it or \<open>allowMissing\<close> is set. The same frame
  holds for the whole run command when the \<open>dry-run\<close> flag is set.
\<close>

theorem Run_dispatch_dry_run:
  "calls (snd (Run_dispatch pf cmd scriptName allowMissing True modules st)) = calls st
   \<and> world (snd (Run_dispatch pf cmd scriptName allowMissing True modules st)) = world st
   \<and> (\<not> (\<forall>m\<in>set modules. lacks scriptName m) \<and>
       ((\<forall>m\<in>set modules. \<not> lacks scriptName m) \<or> allowMissing) \<longrightarrow>
       fst (Run_dispatch pf cmd scriptName allowMissing True modules st) = None)
   \<and> (flag_dry_run c \<longrightarrow>
       calls (snd (Run pf cmd c st)) = calls st \<and> world (snd (Run pf cmd c st)) = world st)"
proof (intro conjI impI)
  show "calls (snd (Run_dispatch pf cmd scriptName allowMissing True modules st)) = calls st"
    and "world (snd (Run_dispatch pf cmd scriptName allowMissing True modules st)) = world st"
    using Run_dispatch_dry_frame[of pf cmd scriptName allowMissing modules st] by simp_all
next
  assume "\<not> (\<forall>m\<in>set modules. lacks scriptName m) \<and>
       ((\<forall>m\<in>set modules. \<not> lacks scriptName m) \<or> allowMissing)"
  then show "fst (Run_dispatch pf cmd scriptName allowMissing True modules st) = None"
    using Run_dispatch_dry_permit by blast
next
  assume dry: "flag_dry_run c"
  have d: "calls (snd (Run_dispatch pf cmd s a True ms st1)) = calls st1 \<and>
           world (snd (Run_dispatch pf cmd s a True ms st1)) = world st1" for s a ms st1
    by (rule Run_dispatch_dry_frame)
  have g: "GetModules pf c' st1 = ((ms, e), st2) \<Longrightarrow> calls st2 = calls st1 \<and> world st2 = world st1"
    for c' st1 ms e st2
    by (auto simp: GetModules_def Let_def split: prod.splits option.splits)
  have "calls (snd (Run pf cmd c st)) = calls st \<and> world (snd (Run pf cmd c st)) = world st"
    using dry
    by (auto simp: Run_def Let_def d split: option.splits list.splits prod.splits dest!: g)
  then show "calls (snd (Run pf cmd c st)) = calls st"
    and "world (snd (Run pf cmd c st)) = world st"
    by simp_all
qed

text \<open>
  A dry run of \<open>build\<close> over the two example modules succeeds and calls nothing; so
  does a dry run of \<open>test\<close> with \<open>allowMissing\<close>, although the script would fail.
\<close>

theorem Run_dispatch_dry_run_witness:
  "fst (Run_dispatch mem_Platform repo_cmd ''build'' False True [alpha_module, zeta_module]
          (start repo_world)) = None
   \<and> fst (Run_dispatch mem_Platform repo_cmd ''test'' True True [alpha_module, zeta_module]
          (start repo_world)) = None
   \<and> calls (snd (Run_dispatch mem_Platform repo_cmd ''test'' True True
                   [alpha_module, zeta_module] (start repo_world))) = []
   \<and> calls (snd (Run mem_Platform repo_cmd (run_ctx ''build'' ''all'' True False)
                   (start repo_world))) = []"
  using Run_dispatch_dry_run
          [of mem_Platform repo_cmd "''build''" False "[alpha_module, zeta_module]"
              "start repo_world" "run_ctx ''build'' ''all'' True False"]
        Run_dispatch_dry_run
          [of mem_Platform repo_cmd "''test''" True "[alpha_module, zeta_module]"
              "start repo_world" "run_ctx ''build'' ''all'' True False"]
  by (auto simp: lacks_examples start_def run_ctx_def)

section \<open>The run command: sequential execution\<close>

text \<open>
  C6. When the policy on missing scripts lets a run (not a dry run) through, the
  shell calls it makes are an initial segment of the calls for the modules that have
  the script, in the order of the modules, one call each. Every call but the last
  returned no error. If the run returns no error, all the calls were made and none
  failed. If it returns an error, that error is the one the last call returned: the
  first failure ended the run, no later module was called, no call was repeated and
  none was undone. With the \<open>Exec\<close> of the program as the collaborator, the error
  names the directory of the failing call and, when the script itself failed, the
  cause.
\<close>

theorem Run_dispatch_sequential:
  assumes "Run_dispatch pf cmd scriptName allowMissing False modules st = (r, st')"
    and "\<not> (\<forall>m\<in>set modules. lacks scriptName m)"
    and "(\<forall>m\<in>set modules. \<not> lacks scriptName m) \<or> allowMissing"
  shows "\<exists>cs. calls st' = calls st @ cs \<and>
           prefix (map fst cs) (runnable pf cmd scriptName modules) \<and>
           (\<forall>x\<in>set (butlast cs). snd x = None) \<and>
           (case r of
              None \<Rightarrow> map fst cs = runnable pf cmd scriptName modules \<and> (\<forall>x\<in>set cs. snd x = None)
            | Some e \<Rightarrow>
                cs \<noteq> [] \<and> snd (last cs) = Some e \<and>
                (\<forall>os. SystemUtils cmd = NewSystemUtils os \<longrightarrow>
                   (\<exists>p s. fst (last cs) = BashCommand p s \<and>
                      (e = ''directory does not exist: '' @ p \<or>
                       (\<exists>cause. e = ''failed to run command in '' @ p @ '': '' @ cause)))))"
proof -
  from Run_dispatch_permit[OF assms(2,3)] obtain st1 where
    st1: "calls st1 = calls st"
         "Run_dispatch pf cmd scriptName allowMissing False modules st =
            Run_execute pf cmd scriptName False modules st1"
    by blast
  then have "Run_execute pf cmd scriptName False modules st1 = (r, st')"
    using assms(1) by simp
  from Run_execute_trace[OF this] obtain cs where cs:
    "calls st' = calls st1 @ cs"
    "prefix (map fst cs) (runnable pf cmd scriptName modules)"
    "\<forall>x\<in>set (butlast cs). snd x = None"
    "\<forall>x\<in>set cs. \<exists>p s w. x = (BashCommand p s, fst (Exec_BashCommand (SystemUtils cmd) p s w))"
    "case r of
       None \<Rightarrow> map fst cs = runnable pf cmd scriptName modules \<and> (\<forall>x\<in>set cs. snd x = None)
     | Some e \<Rightarrow> cs \<noteq> [] \<and> snd (last cs) = Some e"
    by blast
  have named: "\<exists>p s. fst (last cs) = BashCommand p s \<and>
                  (e = ''directory does not exist: '' @ p \<or>
                   (\<exists>cause. e = ''failed to run command in '' @ p @ '': '' @ cause))"
    if "r = Some e" and os: "SystemUtils cmd = NewSystemUtils os" for e os
  proof -
    from that cs(5) have ne: "cs \<noteq> []" and l: "snd (last cs) = Some e"
      by simp_all
    from ne have "last cs \<in> set cs"
      by simp
    with cs(4) obtain p s w where
      x: "last cs = (BashCommand p s, fst (Exec_BashCommand (SystemUtils cmd) p s w))"
      by blast
    with l have "fst (BashCommand_impl os p s w) = Some e"
      by (simp add: os NewSystemUtils_def)
    from BashCommand_impl_error[OF this] x show ?thesis
      by simp
  qed
  have "case r of
          None \<Rightarrow> map fst cs = runnable pf cmd scriptName modules \<and> (\<forall>x\<in>set cs. snd x = None)
        | Some e \<Rightarrow>
            cs \<noteq> [] \<and> snd (last cs) = Some e \<and>
            (\<forall>os. SystemUtils cmd = NewSystemUtils os \<longrightarrow>
               (\<exists>p s. fst (last cs) = BashCommand p s \<and>
                  (e = ''directory does not exist: '' @ p \<or>
                   (\<exists>cause. e = ''failed to run command in '' @ p @ '': '' @ cause))))"
  proof (cases r)
    case None
    with cs(5) show ?thesis by simp
  next
    case (Some e)
    with cs(5) named[OF Some] show ?thesis by simp
  qed
  with cs(1,2,3) st1(1) show ?thesis
    by auto
qed

lemma start_simps:
  "world (start w) = w" "logged (start w) = []" "calls (start w) = []"
  by (simp_all add: start_def)

lemma alpha_test_empty: "index_map (Scripts alpha_module) ''test'' = ''''"
  by (simp add: alpha_module_def index_map_def)

lemma Run_dispatch_test_example:
  "Run_dispatch mem_Platform repo_cmd ''test'' True False
     [alpha_module, zeta_module, zulu_module] (start repo_world) =
   (Some ''failed to run command in /repo/libs/zeta: exit status 1'',
    \<lparr>world = repo_world,
     logged =
       [(VerboseLn, ''checking if all modules have the script''),
        (VerboseLn,
         ''script is missing in following modules (but flag allowMissing was passed) 'test' :alpha''),
        (InfoLn, ''script is empty, skipping''),
        (InfoLn, ''running script test in module zeta'')],
     calls =
       [(BashCommand ''/repo/libs/zeta'' ''exit 1'',
         Some ''failed to run command in /repo/libs/zeta: exit status 1'')]\<rparr>)"
  by (simp add: Run_dispatch_def Run_modulesWithoutScript_eq lacks_examples module_examples
      alpha_test_empty Let_def logLn_def start_def call_BashCommand_def repo_cmd_simps
      mem_cfg_simps mem_Platform_simps unix_Join_def BashCommand_zeta_fails)

text \<open>
  The script \<open>test\<close> over \<open>alpha\<close> (which lacks it), \<open>zeta\<close> (where it fails) and
  \<open>zulu\<close> (where it would succeed), with \<open>allowMissing\<close>: the calls made are an
  initial segment of the two calls of the run, and the last one made returned the
  error of the run, which names \<open>/repo/libs/zeta\<close>.
\<close>

theorem Run_dispatch_sequential_witness:
  "\<exists>cs. cs \<noteq> [] \<and>
     prefix (map fst cs)
       [BashCommand ''/repo/libs/zeta'' ''exit 1'', BashCommand ''/repo/svc/zulu'' ''go test''] \<and>
     (\<forall>x\<in>set (butlast cs). snd x = None) \<and>
     snd (last cs) = Some ''failed to run command in /repo/libs/zeta: exit status 1'' \<and>
     fst (last cs) = BashCommand ''/repo/libs/zeta'' ''exit 1'' \<and>
     calls (snd (Run_dispatch mem_Platform repo_cmd ''test'' True False
                   [alpha_module, zeta_module, zulu_module] (start repo_world))) = cs"
  using Run_dispatch_sequential
          [OF Run_dispatch_test_example,
           unfolded runnable_examples]
  by (simp add: lacks_examples Run_dispatch_test_example start_simps)

section \<open>Module discovery\<close>

lemma GetModules_frame:
  "calls (snd (GetModules pf c st)) = calls st"
  "world (snd (GetModules pf c st)) = world st"
  by (auto simp: GetModules_def Let_def split: prod.splits option.splits)

lemma GetModules_fst_world:
  "world st1 = world st2 \<Longrightarrow> fst (GetModules pf c st1) = fst (GetModules pf c st2)"
  by (auto simp: GetModules_def Let_def split: prod.splits option.splits)

lemma GetModules_callback_append:
  "GetModules_callback pf c w e ms =
     (ms @ fst (GetModules_callback pf c w e []), snd (GetModules_callback pf c w e []))"
  by (auto simp: GetModules_callback_def Let_def split: prod.splits option.splits sum.splits)

lemma Walk_run_callback_ok:
  "Walk_run (GetModules_callback pf c w) es ms = (ms', None) \<longleftrightarrow>
     (\<forall>e\<in>set es. snd (GetModules_callback pf c w e []) = None) \<and>
     ms' = ms @ concat (map (\<lambda>e. fst (GetModules_callback pf c w e [])) es)"
proof (induction es arbitrary: ms)
  case Nil
  then show ?case by auto
next
  case (Cons e es)
  show ?case
  proof (cases "snd (GetModules_callback pf c w e [])")
    case None
    then have "Walk_run (GetModules_callback pf c w) (e # es) ms =
               Walk_run (GetModules_callback pf c w) es
                 (ms @ fst (GetModules_callback pf c w e []))"
      by (subst Walk_run.simps, subst GetModules_callback_append) simp
    then show ?thesis using Cons.IH None by simp
  next
    case (Some err)
    then have "Walk_run (GetModules_callback pf c w) (e # es) ms =
               (ms @ fst (GetModules_callback pf c w e []), Some err)"
      by (subst Walk_run.simps, subst GetModules_callback_append) simp
    then show ?thesis using Some by simp
  qed
qed

lemma mset_concat_map_cong:
  assumes "mset es' = mset es"
  shows "mset (concat (map f es')) = mset (concat (map f es))"
proof -
  have "mset (concat (map f xs)) = sum_mset (image_mset (\<lambda>e. mset (f e)) (mset xs))" for xs
    by (induction xs) simp_all
  then show ?thesis using assms by simp
qed

lemma LoadModuleConfig_Walk_update:
  "LoadModuleConfig (pf\<lparr>filepath_Walk := walk'\<rparr>) c = LoadModuleConfig pf c"
  by (rule ext)+ (simp add: LoadModuleConfig_def split: sum.splits)

lemma GetModules_callback_Walk_update:
  "GetModules_callback (pf\<lparr>filepath_Walk := walk'\<rparr>) c w = GetModules_callback pf c w"
  by (rule ext)+
     (simp add: GetModules_callback_def LoadModuleConfig_Walk_update Let_def
        split: prod.splits option.splits sum.splits)

lemma GetModules_ok:
  "GetModules pf c st = ((modules, None), st') \<longleftrightarrow>
     (\<exists>ms. Walk_run (GetModules_callback pf c (world st))
             (filepath_Walk pf (ROOT (Runtime c)) (world st)) [] = (ms, None) \<and>
           modules = sort_key Name ms \<and> st' = st)"
  by (auto simp: GetModules_def Let_def sort_Slice_Name_def split: prod.splits option.splits)

lemma names_of_sorted:
  assumes "mset ms' = mset ms"
  shows "map Name (sort_key Name ms') = map Name (sort_key Name ms)"
proof -
  have "sort (map Name ms) = map Name (sort_key Name xs)" if "mset xs = mset ms" for xs
  proof (rule properties_for_sort)
    show "mset (map Name (sort_key Name xs)) = mset (map Name ms)"
      using that by simp
    show "sorted (map Name (sort_key Name xs))"
      by (rule sorted_sort_key)
  qed
  from this[of ms'] this[of ms] assms show ?thesis by simp
qed

text \<open>
  C7. When module discovery succeeds, the names of the modules it returns are in
  ascending order (strings compared byte by byte, lexicographically). The order of
  the walk does not matter: had the walk handed over the same entries in any other
  order, discovery would have succeeded as well, with the same modules and the same
  sequence of names.
\<close>

theorem GetModules_sorted_by_name:
  assumes "GetModules pf c st = ((modules, None), st')"
  shows "sorted (map Name modules)
       \<and> (\<forall>walk'. mset (walk' (ROOT (Runtime c)) (world st)) =
                   mset (filepath_Walk pf (ROOT (Runtime c)) (world st)) \<longrightarrow>
            (\<exists>modules'. GetModules (pf\<lparr>filepath_Walk := walk'\<rparr>) c st = ((modules', None), st') \<and>
                        map Name modules' = map Name modules \<and>
                        mset modules' = mset modules))"
proof (intro conjI allI impI)
  let ?cb = "GetModules_callback pf c (world st)"
  let ?es = "filepath_Walk pf (ROOT (Runtime c)) (world st)"
  from assms obtain ms where ms: "Walk_run ?cb ?es [] = (ms, None)"
    "modules = sort_key Name ms" "st' = st"
    unfolding GetModules_ok by blast
  show "sorted (map Name modules)"
    unfolding ms(2) by (rule sorted_sort_key)
  fix walk'
  assume p: "mset (walk' (ROOT (Runtime c)) (world st)) = mset ?es"
  let ?es' = "walk' (ROOT (Runtime c)) (world st)"
  have ok: "\<forall>e\<in>set ?es. snd (?cb e []) = None"
    and m: "ms = concat (map (\<lambda>e. fst (?cb e [])) ?es)"
    using ms(1) unfolding Walk_run_callback_ok by simp_all
  have "set ?es' = set ?es"
    using p by (rule mset_eq_setD)
  with ok have ok': "\<forall>e\<in>set ?es'. snd (?cb e []) = None"
    by simp
  define ms' where "ms' = concat (map (\<lambda>e. fst (?cb e [])) ?es')"
  have w': "Walk_run ?cb ?es' [] = (ms', None)"
    unfolding Walk_run_callback_ok using ok' by (simp add: ms'_def)
  have mm: "mset ms' = mset ms"
    unfolding ms'_def m using p by (rule mset_concat_map_cong)
  have "GetModules (pf\<lparr>filepath_Walk := walk'\<rparr>) c st = ((sort_key Name ms', None), st')"
    unfolding GetModules_ok using w' ms(3) by (simp add: GetModules_callback_Walk_update)
  moreover have "map Name (sort_key Name ms') = map Name modules"
    unfolding ms(2) using mm by (rule names_of_sorted)
  moreover have "mset (sort_key Name ms') = mset modules"
    unfolding ms(2) using mm by simp
  ultimately
  show "\<exists>modules'. GetModules (pf\<lparr>filepath_Walk := walk'\<rparr>) c st = ((modules', None), st') \<and>
                   map Name modules' = map Name modules \<and> mset modules' = mset modules"
    by blast
qed

lemma mem_Walk_repo:
  "mem_Walk ''/repo'' repo_world =
     [(''/repo'', True, None), (''/repo/libs'', True, None), (''/repo/libs/zeta'', True, None),
      (''/repo/libs/zeta/module.toml'', False, None), (''/repo/svc'', True, None),
      (''/repo/svc/alpha'', True, None), (''/repo/svc/alpha/module.toml'', False, None),
      (''/repo/work.toml'', False, None)]"
  by (simp add: mem_Walk_def repo_world_def)

lemma LoadModuleConfig_repo:
  "LoadModuleConfig mem_Platform (mem_cfg wd ''/repo'') ''svc/alpha'' repo_world = Inr alpha_module"
  "LoadModuleConfig mem_Platform (mem_cfg wd ''/repo'') ''libs/zeta'' repo_world = Inr zeta_module"
  by (simp_all add: LoadModuleConfig_def mem_cfg_simps mem_Platform_simps mem_su_simps
      unix_Join_def unix_Base_def mem_ReadFile_def mem_Unmarshal_def repo_world_def
      alpha_module_def zeta_module_def)

lemma GetModules_callback_repo:
  "GetModules_callback mem_Platform (mem_cfg wd ''/repo'') repo_world (''/repo'', True, None) ms =
     (ms, None)"
  "GetModules_callback mem_Platform (mem_cfg wd ''/repo'') repo_world (''/repo/libs'', True, None) ms =
     (ms, None)"
  "GetModules_callback mem_Platform (mem_cfg wd ''/repo'') repo_world (''/repo/svc'', True, None) ms =
     (ms, None)"
  "GetModules_callback mem_Platform (mem_cfg wd ''/repo'') repo_world (p, False, None) ms =
     (ms, None)"
  "GetModules_callback mem_Platform (mem_cfg wd ''/repo'') repo_world
     (''/repo/libs/zeta'', True, None) ms = (ms @ [zeta_module], None)"
  "GetModules_callback mem_Platform (mem_cfg wd ''/repo'') repo_world
     (''/repo/svc/alpha'', True, None) ms = (ms @ [alpha_module], None)"
  by (simp_all add: GetModules_callback_def LoadModuleConfig_repo mem_cfg_simps
      mem_Platform_simps mem_su_simps unix_Join_def unix_Rel_def)
     (simp_all add: repo_world_def)

lemma GetModules_repo:
  "world st = repo_world \<Longrightarrow>
   GetModules mem_Platform (mem_cfg wd ''/repo'') st = (([alpha_module, zeta_module], None), st)"
  by (simp add: GetModules_def mem_cfg_simps mem_Platform_simps mem_Walk_repo
      GetModules_callback_repo sort_Slice_Name_def module_examples)

lemma GetModules_repo_rev:
  "world st = repo_world \<Longrightarrow>
   GetModules (mem_Platform\<lparr>filepath_Walk := \<lambda>root w. rev (mem_Walk root w)\<rparr>)
     (mem_cfg wd ''/repo'') st = (([alpha_module, zeta_module], None), st)"
  by (simp add: GetModules_def mem_cfg_simps mem_Walk_repo GetModules_callback_Walk_update
      GetModules_callback_repo sort_Slice_Name_def module_examples)

text \<open>
  In the example tree the walk meets \<open>libs/zeta\<close> before \<open>svc/alpha\<close>; discovery
  returns \<open>alpha\<close>, \<open>zeta\<close>, and does so for the reversed walk as well.
\<close>

theorem GetModules_sorted_by_name_witness:
  "fst (GetModules mem_Platform (mem_cfg ''/repo/svc/alpha'' ''/repo'') (start repo_world)) =
     ([alpha_module, zeta_module], None)
   \<and> sorted [''alpha'', ''zeta'']
   \<and> map Name
       (fst (fst (GetModules (mem_Platform\<lparr>filepath_Walk := \<lambda>root w. rev (mem_Walk root w)\<rparr>)
                    (mem_cfg ''/repo/svc/alpha'' ''/repo'') (start repo_world)))) =
     [''alpha'', ''zeta'']"
  using GetModules_sorted_by_name
          [OF GetModules_repo [of "start repo_world" "''/repo/svc/alpha''"]]
  by (auto simp: start_simps module_examples mem_Platform_simps mem_cfg_simps
      GetModules_repo GetModules_repo_rev)

section \<open>The run command: targets\<close>

lemma Run_reaches_dispatch:
  assumes "RootConfigExists pf (Config cmd) (world st)" and "Args_Get c 0 \<noteq> ''''"
    and "''root'' \<notin> set (strings_Split (flag_target c) (CHR '',''))"
    and "fst (GetModules pf (Config cmd) st) = (allModules, None)"
  shows "\<exists>st1. calls st1 = calls st \<and> world st1 = world st \<and>
           Run pf cmd c st =
             Run_dispatch pf cmd (Args_Get c 0) (flag_allow_missing c) (flag_dry_run c)
               (Run_selectModules (strings_Split (flag_target c) (CHR '',''))
                  (hd (strings_Split (flag_target c) (CHR '',''))) allModules [])
               st1"
proof -
  let ?targets = "strings_Split (flag_target c) (CHR '','')"
  let ?scriptName = "Args_Get c 0"
  define st3 where "st3 =
     logLn VerboseLn (''value for flag target:       '' @ strings_Join ?targets '','')
       (logLn VerboseLn (''value for flag dryRun:       '' @ strconv_FormatBool (flag_dry_run c))
         (logLn VerboseLn
            (''value for flag allowMissing: '' @ strconv_FormatBool (flag_allow_missing c))
            (logLn VerboseLn (''running script '' @ [CHR 0x27] @ ?scriptName @ [CHR 0x27]) st)))"
  have st3: "calls st3 = calls st" "world st3 = world st"
    by (simp_all add: st3_def)
  obtain t0 ts where ts: "?targets = t0 # ts"
    using strings_Split_not_Nil[of "flag_target c" "CHR '',''"] by (cases ?targets) auto
  have t0: "t0 \<noteq> ''root''"
    using assms(3) ts by auto
  have g: "fst (GetModules pf (Config cmd) st3) = (allModules, None)"
    using GetModules_fst_world[of st3 st pf "Config cmd"] assms(4) st3 by simp
  obtain st4 where st4: "GetModules pf (Config cmd) st3 = ((allModules, None), st4)"
    using g by (cases "GetModules pf (Config cmd) st3") auto
  have "calls (snd (GetModules pf (Config cmd) st3)) = calls st3"
       "world (snd (GetModules pf (Config cmd) st3)) = world st3"
    by (rule GetModules_frame)+
  then have f: "calls st4 = calls st" "world st4 = world st"
    unfolding st4 using st3 by simp_all
  have "Run pf cmd c st =
          (case Run_checkRoot ?targets ?targets of
             Some err \<Rightarrow> (Some err, st3)
           | None \<Rightarrow>
               (case ?targets of
                  [] \<Rightarrow> (Some ''panic: runtime error: index out of range [0] with length 0'', st3)
                | target0 # _ \<Rightarrow>
                    if target0 = ''root'' then
                      (None, logLn VerboseLn ''running script in root not supported yet'' st3)
                    else
                      (case GetModules pf (Config cmd) st3 of
                         ((_, Some err), st) \<Rightarrow> (Some err, st)
                       | ((allModules, None), st) \<Rightarrow>
                           Run_dispatch pf cmd ?scriptName (flag_allow_missing c) (flag_dry_run c)
                             (Run_selectModules ?targets target0 allModules []) st)))"
    using assms(1,2) unfolding Run_def Let_def st3_def by simp
  also have "\<dots> = Run_dispatch pf cmd ?scriptName (flag_allow_missing c) (flag_dry_run c)
            (Run_selectModules ?targets (hd ?targets) allModules []) st4"
    using assms(3) t0 by (simp add: Run_checkRoot_eq ts st4)
  finally show ?thesis
    using f by blast
qed

lemma run_ctx_simps:
  "Args_Get (run_ctx scriptName target dryRun allowMissing) 0 = scriptName"
  "flag_target (run_ctx scriptName target dryRun allowMissing) = target"
  "flag_dry_run (run_ctx scriptName target dryRun allowMissing) = dryRun"
  "flag_allow_missing (run_ctx scriptName target dryRun allowMissing) = allowMissing"
  by (simp_all add: run_ctx_def Args_Get_def)

lemma strings_Split_examples:
  "strings_Split ''zeta,ghost,alpha'' (CHR '','') = [''zeta'', ''ghost'', ''alpha'']"
  "strings_Split ''all,alpha'' (CHR '','') = [''all'', ''alpha'']"
  "strings_Split ''root,alpha'' (CHR '','') = [''root'', ''alpha'']"
  "strings_Split ''ghost'' (CHR '','') = [''ghost'']"
  "strings_Split ''all'' (CHR '','') = [''all'']"
  by simp_all

lemma RootConfigExists_repo:
  "RootConfigExists mem_Platform (mem_cfg wd ''/repo'') repo_world"
  by (simp add: RootConfigExists_def mem_cfg_simps mem_Platform_simps mem_su_simps
      unix_Join_def repo_world_def)

lemma BashCommand_build_succeeds:
  "Exec_BashCommand (NewSystemUtils mem_OS) ''/repo/svc/alpha'' ''go build'' repo_world =
     (None, repo_world)"
  "Exec_BashCommand (NewSystemUtils mem_OS) ''/repo/libs/zeta'' ''make'' repo_world =
     (None, repo_world)"
  by (simp_all add: NewSystemUtils_def BashCommand_impl_def mem_OS_def mem_Stat_def
      mem_IsNotExist_def mem_cmd_Run_def repo_world_def)

lemma Run_dispatch_build_example:
  "world st = repo_world \<Longrightarrow>
   fst (Run_dispatch mem_Platform repo_cmd ''build'' False False [alpha_module, zeta_module] st) =
     None \<and>
   calls (snd (Run_dispatch mem_Platform repo_cmd ''build'' False False
                 [alpha_module, zeta_module] st)) =
     calls st @ [(BashCommand ''/repo/svc/alpha'' ''go build'', None),
                 (BashCommand ''/repo/libs/zeta'' ''make'', None)]"
  by (simp add: Run_dispatch_def Run_modulesWithoutScript_eq lacks_examples module_examples
      Let_def call_BashCommand_def repo_cmd_simps mem_cfg_simps mem_Platform_simps
      unix_Join_def BashCommand_build_succeeds)

lemma Run_all_first_example:
  "Run mem_Platform repo_cmd (run_ctx ''build'' ''all,alpha'' False False) (start repo_world) =
     Run_dispatch mem_Platform repo_cmd ''build'' False False [alpha_module, zeta_module]
       (logLn VerboseLn (''value for flag target:       '' @ ''all,alpha'')
         (logLn VerboseLn (''value for flag dryRun:       '' @ ''false'')
           (logLn VerboseLn (''value for flag allowMissing: '' @ ''false'')
             (logLn VerboseLn (''running script '' @ [CHR 0x27] @ ''build'' @ [CHR 0x27])
               (start repo_world)))))"
  unfolding Run_def Let_def
  by (simp add: run_ctx_simps strings_Split_examples repo_cmd_simps start_simps
      RootConfigExists_repo GetModules_repo Run_selectModules_eq strconv_FormatBool_def
      del: strings_Split.simps)

text \<open>
  C3 (as amended). When the first token of the target expression is not \<open>all\<close>, the
  selection loop of the run command returns the discovered modules whose name is
  among the tokens, in the order of discovery; a token that names no module selects
  nothing and raises nothing. In a run whose earlier checks pass (root document
  present, script name given, no \<open>root\<close> token, discovery without error) these are
  the modules handed to the dispatch.
\<close>

theorem Run_selectModules_named:
  assumes "targets = strings_Split (flag_target c) (CHR '','')" and "hd targets \<noteq> ''all''"
  shows "Run_selectModules targets (hd targets) allModules [] =
           filter (\<lambda>m. Name m \<in> set targets) allModules
       \<and> (RootConfigExists pf (Config cmd) (world st) \<and> Args_Get c 0 \<noteq> '''' \<and>
          ''root'' \<notin> set targets \<and> fst (GetModules pf (Config cmd) st) = (allModules, None) \<longrightarrow>
          (\<exists>st1. calls st1 = calls st \<and> world st1 = world st \<and>
             Run pf cmd c st =
               Run_dispatch pf cmd (Args_Get c 0) (flag_allow_missing c) (flag_dry_run c)
                 (filter (\<lambda>m. Name m \<in> set targets) allModules) st1))"
proof (intro conjI impI)
  show sel: "Run_selectModules targets (hd targets) allModules [] =
           filter (\<lambda>m. Name m \<in> set targets) allModules"
    using assms(2) by (simp add: Run_selectModules_eq)
  assume "RootConfigExists pf (Config cmd) (world st) \<and> Args_Get c 0 \<noteq> '''' \<and>
          ''root'' \<notin> set targets \<and> fst (GetModules pf (Config cmd) st) = (allModules, None)"
  then show "\<exists>st1. calls st1 = calls st \<and> world st1 = world st \<and>
             Run pf cmd c st =
               Run_dispatch pf cmd (Args_Get c 0) (flag_allow_missing c) (flag_dry_run c)
                 (filter (\<lambda>m. Name m \<in> set targets) allModules) st1"
    using Run_reaches_dispatch[of pf cmd st c allModules] sel
    unfolding assms(1) by simp
qed

text \<open>
  The expression \<open>zeta,ghost,alpha\<close> over the discovered modules \<open>alpha\<close>, \<open>zeta\<close>
  selects \<open>alpha\<close>, \<open>zeta\<close>: discovery order, and nothing for \<open>ghost\<close>.
\<close>

theorem Run_selectModules_named_witness:
  "Run_selectModules [''zeta'', ''ghost'', ''alpha''] ''zeta'' [alpha_module, zeta_module] [] =
     [alpha_module, zeta_module]
   \<and> (\<exists>st1. calls st1 = [] \<and> world st1 = repo_world \<and>
         Run mem_Platform repo_cmd (run_ctx ''build'' ''zeta,ghost,alpha'' False False)
           (start repo_world) =
         Run_dispatch mem_Platform repo_cmd ''build'' False False [alpha_module, zeta_module] st1)"
  using Run_selectModules_named
          [of "[''zeta'', ''ghost'', ''alpha'']" "run_ctx ''build'' ''zeta,ghost,alpha'' False False"
              "[alpha_module, zeta_module]" mem_Platform repo_cmd "start repo_world"]
  by (simp add: run_ctx_simps strings_Split_examples module_examples start_simps
      RootConfigExists_repo repo_cmd_simps GetModules_repo)

text \<open>
  C3 as stated fails: the token list of \<open>all,alpha\<close> has no \<open>root\<close> and is not the
  sole token \<open>all\<close>, \<open>zeta\<close> is not among its tokens, and yet \<open>zeta\<close> is selected
  with \<open>alpha\<close>, and the run calls the script in both.
\<close>

theorem Run_selectModules_all_first_counterexample:
  "strings_Split ''all,alpha'' (CHR '','') = [''all'', ''alpha'']
   \<and> ''zeta'' \<notin> set (strings_Split ''all,alpha'' (CHR '',''))
   \<and> Run_selectModules (strings_Split ''all,alpha'' (CHR '','')) ''all''
        [alpha_module, zeta_module] [] = [alpha_module, zeta_module]
   \<and> map fst (calls (snd (Run mem_Platform repo_cmd (run_ctx ''build'' ''all,alpha'' False False)
                            (start repo_world)))) =
       [BashCommand ''/repo/svc/alpha'' ''go build'', BashCommand ''/repo/libs/zeta'' ''make'']"
  by (simp add: Run_all_first_example Run_dispatch_build_example Run_selectModules_eq
      start_simps del: strings_Split.simps)
     simp

text \<open>
  C5. When the token list of the target expression holds \<open>root\<close> and at least one
  other token, the run command returns an error and calls no collaborator, whatever
  else is given; and once its two earlier checks pass (root document present, script
  name given), the error is the one that says that a script cannot run in the root
  and in modules at the same time.
\<close>

theorem Run_root_and_modules:
  assumes "''root'' \<in> set (strings_Split (flag_target c) (CHR '',''))"
    and "length (strings_Split (flag_target c) (CHR '','')) > 1"
  shows "(\<exists>err. fst (Run pf cmd c st) = Some err)
       \<and> calls (snd (Run pf cmd c st)) = calls st
       \<and> world (snd (Run pf cmd c st)) = world st
       \<and> (RootConfigExists pf (Config cmd) (world st) \<and> Args_Get c 0 \<noteq> '''' \<longrightarrow>
            fst (Run pf cmd c st) =
              Some (''cannot run script in root and in modules at the same time'' @
                    '', you're being too fancy''))"
  using assms by (simp add: Run_def Let_def Run_checkRoot_eq)

text \<open>The target \<open>root,alpha\<close> in the example monorepo: the error, and no call.\<close>

theorem Run_root_and_modules_witness:
  "fst (Run mem_Platform repo_cmd (run_ctx ''build'' ''root,alpha'' False True)
          (start repo_world)) =
     Some ''cannot run script in root and in modules at the same time, you're being too fancy''
   \<and> calls (snd (Run mem_Platform repo_cmd (run_ctx ''build'' ''root,alpha'' False True)
                   (start repo_world))) = []"
  using Run_root_and_modules
          [of "run_ctx ''build'' ''root,alpha'' False True" mem_Platform repo_cmd
              "start repo_world"]
  by (simp add: run_ctx_simps strings_Split_examples start_simps repo_cmd_simps
      RootConfigExists_repo del: strings_Split.simps)

text \<open>
  C10. In a run whose earlier checks pass (root document present, script name given,
  no \<open>root\<close> token, discovery without error), if no module is discovered, or if the
  first token is not \<open>all\<close> and no discovered module is named by a token, then no
  module is selected and the run fails with the \<open>missing in all modules\<close> error,
  having called no collaborator.
\<close>

theorem Run_no_targets:
  assumes "RootConfigExists pf (Config cmd) (world st)" and "Args_Get c 0 \<noteq> ''''"
    and "targets = strings_Split (flag_target c) (CHR '','')"
    and "''root'' \<notin> set targets"
    and "fst (GetModules pf (Config cmd) st) = (allModules, None)"
    and "allModules = [] \<or>
         (hd targets \<noteq> ''all'' \<and> (\<forall>m\<in>set allModules. Name m \<notin> set targets))"
  shows "Run_selectModules targets (hd targets) allModules [] = []
       \<and> fst (Run pf cmd c st) = Some ''not running script, because it is missing in all modules''
       \<and> calls (snd (Run pf cmd c st)) = calls st"
proof -
  have sel: "Run_selectModules targets (hd targets) allModules [] = []"
    using assms(6) by (auto simp: Run_selectModules_eq filter_empty_conv)
  from Run_reaches_dispatch[OF assms(1,2) assms(4)[unfolded assms(3)] assms(5)]
  obtain st1 where st1: "calls st1 = calls st"
    "Run pf cmd c st =
       Run_dispatch pf cmd (Args_Get c 0) (flag_allow_missing c) (flag_dry_run c)
         (Run_selectModules targets (hd targets) allModules []) st1"
    unfolding assms(3) by blast
  show ?thesis
    using sel st1 by (simp add: Run_dispatch_reject_all)
qed

lemma empty_world_examples:
  "RootConfigExists mem_Platform
     (mem_cfg wd ''/tmp/new'') (empty_world\<lparr>entries := entries empty_world @ [(''/tmp/new/work.toml'', False)]\<rparr>)"
  "mem_Walk ''/tmp/new''
     (empty_world\<lparr>entries := entries empty_world @ [(''/tmp/new/work.toml'', False)]\<rparr>) =
     [(''/tmp/new'', True, None), (''/tmp/new/work.toml'', False, None)]"
  "Fs_Exists (NewSystemUtils mem_OS) ''/tmp/new/module.toml''
     (empty_world\<lparr>entries := entries empty_world @ [(''/tmp/new/work.toml'', False)]\<rparr>) = False"
  by (simp_all add: RootConfigExists_def mem_cfg_simps mem_Platform_simps mem_su_simps
      unix_Join_def mem_Walk_def empty_world_def)

lemma GetModules_new_example:
  "world st = empty_world\<lparr>entries := entries empty_world @ [(''/tmp/new/work.toml'', False)]\<rparr> \<Longrightarrow>
   GetModules mem_Platform (mem_cfg wd ''/tmp/new'') st = (([], None), st)"
  by (simp add: GetModules_def mem_cfg_simps mem_Platform_simps empty_world_examples
      GetModules_callback_def sort_Slice_Name_def unix_Join_def)

lemma new_cmd_simps:
  "SystemUtils new_cmd = NewSystemUtils mem_OS"
  "Config new_cmd = mem_cfg ''/tmp/new'' ''/tmp/new''"
  by (simp_all add: new_cmd_def mem_Commands_def)

text \<open>
  Both ways to an empty selection: the target \<open>ghost\<close> in the example monorepo,
  where no module has that name, and the default target \<open>all\<close> in a monorepo
  without modules.
\<close>

theorem Run_no_targets_witness:
  "fst (Run mem_Platform repo_cmd (run_ctx ''build'' ''ghost'' False True) (start repo_world)) =
     Some ''not running script, because it is missing in all modules''
   \<and> fst (Run mem_Platform new_cmd (run_ctx ''build'' ''all'' False True)
          (start (empty_world\<lparr>entries := entries empty_world @
                                           [(''/tmp/new/work.toml'', False)]\<rparr>))) =
     Some ''not running script, because it is missing in all modules''"
proof
  show "fst (Run mem_Platform repo_cmd (run_ctx ''build'' ''ghost'' False True)
              (start repo_world)) =
     Some ''not running script, because it is missing in all modules''"
    using Run_no_targets
            [of mem_Platform repo_cmd "start repo_world" "run_ctx ''build'' ''ghost'' False True"
                "[''ghost'']" "[alpha_module, zeta_module]"]
    by (simp add: run_ctx_simps strings_Split_examples start_simps repo_cmd_simps
        RootConfigExists_repo GetModules_repo module_examples del: strings_Split.simps)
  show "fst (Run mem_Platform new_cmd (run_ctx ''build'' ''all'' False True)
          (start (empty_world\<lparr>entries := entries empty_world @
                                           [(''/tmp/new/work.toml'', False)]\<rparr>))) =
     Some ''not running script, because it is missing in all modules''"
    using Run_no_targets
            [of mem_Platform new_cmd
                "start (empty_world\<lparr>entries := entries empty_world @
                                                 [(''/tmp/new/work.toml'', False)]\<rparr>)"
                "run_ctx ''build'' ''all'' False True" "[''all'']" "[]"]
    by (simp add: run_ctx_simps strings_Split_examples start_simps new_cmd_simps
        empty_world_examples GetModules_new_example del: strings_Split.simps)
qed

section \<open>The init command\<close>

text \<open>
  C8. When the root document exists at the resolved root, init returns the
  \<open>already exists\<close> error and the state it was started in: nothing is written, no
  command is run, nothing is read from standard input or logged.
\<close>

theorem Init_already_exists:
  assumes "RootConfigExists pf (Config cmd) (world st)"
  shows "Init pf cmd c st =
           (Some (''monorepo already exists at '' @ ROOT (Runtime (Config cmd))), st)"
  using assms by (simp add: Init_def)

text \<open>Init in the example monorepo, whose root document is there.\<close>

theorem Init_already_exists_witness:
  "Init mem_Platform repo_cmd (run_ctx ''mono'' ''all'' False False) (start repo_world) =
     (Some ''monorepo already exists at /repo'', start repo_world)"
  using Init_already_exists
          [of mem_Platform repo_cmd "start repo_world" "run_ctx ''mono'' ''all'' False False"]
  by (simp add: start_simps repo_cmd_simps RootConfigExists_repo mem_cfg_simps)

text \<open>
  C9, at the failing input: init in a fresh directory, no name given, the two prompts
  answered with an empty line each. The name falls back to the base name of the root,
  as the prompt says; the vendor choice does not fall back to the \<open>y\<close> the prompt
  announces: the document written has \<open>vendor=false\<close>.
\<close>

theorem Init_empty_answers:
  "fst (Init mem_Platform new_cmd (run_ctx '''' ''all'' False False) (start empty_world)) = None
   \<and> map fst (calls (snd (Init mem_Platform new_cmd (run_ctx '''' ''all'' False False)
                            (start empty_world)))) =
       [GoCommand ''/tmp/new'' [''work'', ''init''],
        FsWrite ''/tmp/new/work.toml''
          (''name=new'' @ [CHR 0x0A] @ ''version=0.1.0'' @ [CHR 0x0A] @
           ''strategy=workspace'' @ [CHR 0x0A] @ ''vendor=false'' @ [CHR 0x0A])]
   \<and> (Default, ''Do you want to vendor dependencies? (y/n) default: (y) '') \<in>
       set (logged (snd (Init mem_Platform new_cmd (run_ctx '''' ''all'' False False)
                           (start empty_world))))"
  by code_simp

end
